theory Spec2Isabelle
  imports Main "HOL-Library.AList"
begin

section \<open>Values, payloads and the plugin's parameters\<close>

text \<open>
  Attribute bags are open JavaScript objects (\<^verbatim>\<open>Record<string, unknown>\<close>); their values
  are modelled as JSON values. A property that is absent (\<^verbatim>\<open>undefined\<close>) is \<open>None\<close>.
\<close>

datatype json =
    JNull
  | JBool bool
  | JNum int
  | JStr string
  | JArr "json list"
  | JObj "(string \<times> json) list"

text \<open>JavaScript truthiness of a possibly undefined value.\<close>

fun js_truthy :: "json option \<Rightarrow> bool" where
  "js_truthy None = False"
| "js_truthy (Some JNull) = False"
| "js_truthy (Some (JBool b)) = b"
| "js_truthy (Some (JNum n)) = (n \<noteq> 0)"
| "js_truthy (Some (JStr s)) = (s \<noteq> [])"
| "js_truthy (Some (JArr xs)) = True"
| "js_truthy (Some (JObj kvs)) = True"

text \<open>Truthiness of \<^verbatim>\<open>string | undefined | null\<close>: the empty string is falsy.\<close>

definition truthy :: "string option \<Rightarrow> bool" where
  "truthy s = (case s of None \<Rightarrow> False | Some x \<Rightarrow> x \<noteq> [])"

fun string_of_nat :: "nat \<Rightarrow> string" where
  "string_of_nat n =
     (if n < 10 then [char_of (48 + n)]
      else string_of_nat (n div 10) @ [char_of (48 + n mod 10)])"

definition string_of_int :: "int \<Rightarrow> string" where
  "string_of_int i = (if i < 0 then CHR ''-'' # string_of_nat (nat (- i)) else string_of_nat (nat i))"

fun join_comma :: "string list \<Rightarrow> string" where
  "join_comma [] = []"
| "join_comma [s] = s"
| "join_comma (s # t # ss) = s @ '','' @ join_comma (t # ss)"

text \<open>
  \<^verbatim>\<open>String(v)\<close> on a JSON value. Numbers are integers here and print in decimal, so a
  non-integer and a magnitude from 1e21 on are outside the model; the result only names
  the temporary file.
\<close>

fun js_String :: "json \<Rightarrow> string" where
  "js_String JNull = ''null''"
| "js_String (JBool b) = (if b then ''true'' else ''false'')"
| "js_String (JNum n) = string_of_int n"
| "js_String (JStr s) = s"
| "js_String (JArr xs) = join_comma (map (\<lambda>x. if x = JNull then [] else js_String x) xs)"
| "js_String (JObj kvs) = ''[object Object]''"

text \<open>
  \<^verbatim>\<open>mu && typeof mu.upload_id === 'string' ? mu.upload_id : null\<close>: only an object that
  carries a string under \<^verbatim>\<open>upload_id\<close> yields an id.
\<close>

fun upload_id_of :: "json option \<Rightarrow> string option" where
  "upload_id_of (Some (JObj kvs)) =
     (case map_of kvs ''upload_id'' of Some (JStr s) \<Rightarrow> Some s | _ \<Rightarrow> None)"
| "upload_id_of _ = None"

text \<open>\<^verbatim>\<open>typeof attrs.k === 'string' ? attrs.k : dflt\<close>\<close>

definition attr_string :: "(string \<times> json) list \<Rightarrow> string \<Rightarrow> string \<Rightarrow> string" where
  "attr_string attrs k dflt = (case map_of attrs k of Some (JStr s) \<Rightarrow> s | _ \<Rightarrow> dflt)"

text \<open>
  The payload of \<^verbatim>\<open>ItemUpsertPayload\<close>: \<^verbatim>\<open>data.id\<close>, \<^verbatim>\<open>data.attributes\<close> and
  \<^verbatim>\<open>data.relationships?.item_type?.data?.id\<close>.
\<close>

record item_upsert_payload =
  data_id :: "string option"
  data_attributes :: "(string \<times> json) list option"
  data_item_type_id :: "string option"

text \<open>
  A record as the Record Store returns it. The client may nest the fields under
  \<^verbatim>\<open>attributes\<close> or flatten them onto the record; the code reads both shapes.
\<close>

record item =
  item_id :: string
  item_type_rel :: "string option"
  item_attributes :: "(string \<times> json) list option"
  item_fields :: "(string \<times> json) list"

datatype svg_kind = Svg | Image

fun kind_str :: "svg_kind \<Rightarrow> string" where
  "kind_str Svg = ''svg''"
| "kind_str Image = ''image''"

text \<open>A legacy entry of the parameter blob (\<^verbatim>\<open>SvgUpload\<close>).\<close>

record svg_upload =
  su_id :: string
  filename :: "string option"
  raw :: string
  svg_type :: svg_kind
  imageId :: "string option"

text \<open>The persisted plugin parameters (\<^verbatim>\<open>GlobalParameters\<close>), as far as the core reads them.\<close>

record global_parameters =
  isSetupComplete :: bool
  svgModelId :: "string option"
  svgs :: "svg_upload list option"

record item_type =
  it_id :: string
  it_api_key :: string
  it_name :: string
  it_field_keys :: "string list"
  it_title_field :: "string option"

record plugin_ctx =
  plugin_parameters :: global_parameters
  currentUserAccessToken :: "string option"
  environment :: string

section \<open>The host: Asset Store, Record Store, console\<close>

datatype call =
    ItemsFind string
  | ItemsCreate string "(string \<times> json) list"
  | ItemTypesList
  | ItemTypesCreate string string
  | ItemTypesUpdate string string
  | FieldsCreate string string
  | FieldsList string
  | UploadsCreate string string
  | UploadsUpdate string string
  | UploadsDestroy string
  | UpdatePluginParameters global_parameters

datatype error = RequestFailed call | NotFound call

datatype ui_event = Alert string | Notice string

text \<open>
  The world the plugin runs against. \<open>upload_table\<close> maps an asset id to its content address
  and \<open>file_table\<close> a content address to the bytes stored there. \<open>faults\<close> is the script of
  the environment: the head says whether the next request is rejected, and an exhausted
  script rejects nothing. \<open>calls\<close> is the trace of requests issued, each with whether it
  succeeded; \<open>console\<close> holds what \<^verbatim>\<open>console.error\<close> printed and \<open>ui\<close> the alerts and
  notices shown.
\<close>

record world =
  upload_table :: "(string \<times> string) list"
  file_table :: "(string \<times> string) list"
  item_table :: "(string \<times> item) list"
  item_type_table :: "item_type list"
  parameters :: global_parameters
  faults :: "bool list"
  calls :: "(call \<times> bool) list"
  console :: "(string \<times> error) list"
  ui :: "ui_event list"

type_synonym 'a io = "world \<Rightarrow> (error + 'a) \<times> world"

definition return :: "'a \<Rightarrow> 'a io" where
  "return x w = (Inr x, w)"

definition io_bind :: "'a io \<Rightarrow> ('a \<Rightarrow> 'b io) \<Rightarrow> 'b io" where
  "io_bind m f w = (case m w of (Inl e, w') \<Rightarrow> (Inl e, w') | (Inr x, w') \<Rightarrow> f x w')"

text \<open>\<^verbatim>\<open>try { body } catch (err) { handler }\<close>\<close>

definition try_catch :: "'a io \<Rightarrow> (error \<Rightarrow> 'a io) \<Rightarrow> 'a io" where
  "try_catch body handler w =
     (case body w of (Inl e, w') \<Rightarrow> handler e w' | (Inr x, w') \<Rightarrow> (Inr x, w'))"

text \<open>
  \<^verbatim>\<open>try { body } finally { fin }\<close>: the finaliser runs on both outcomes of the body; if it
  throws, its error replaces the body's outcome.
\<close>

definition try_finally :: "'a io \<Rightarrow> unit io \<Rightarrow> 'a io" where
  "try_finally body fin w =
     (case body w of (r, w') \<Rightarrow>
        (case fin w' of (Inl e, w'') \<Rightarrow> (Inl e, w'') | (Inr u, w'') \<Rightarrow> (r, w'')))"

definition console_error :: "string \<Rightarrow> error \<Rightarrow> unit io" where
  "console_error msg err w = (Inr (), w\<lparr>console := console w @ [(msg, err)]\<rparr>)"

definition is_ok :: "error + 'a \<Rightarrow> bool" where
  "is_ok r = (case r of Inl e \<Rightarrow> False | Inr x \<Rightarrow> True)"

text \<open>
  One request to the host. A scripted fault rejects it before it has any effect; otherwise
  the store's own effect runs. Either way the request is appended to the trace.
\<close>

definition head_fault :: "bool list \<Rightarrow> bool" where
  "head_fault fs = (case fs of [] \<Rightarrow> False | b # bs \<Rightarrow> b)"

definition request :: "call \<Rightarrow> 'a io \<Rightarrow> 'a io" where
  "request c eff w =
     (if head_fault (faults w)
      then (Inl (RequestFailed c), w\<lparr>faults := tl (faults w), calls := calls w @ [(c, False)]\<rparr>)
      else (case eff (w\<lparr>faults := tl (faults w)\<rparr>) of
              (r, w') \<Rightarrow> (r, w'\<lparr>calls := calls w' @ [(c, is_ok r)]\<rparr>)))"

text \<open>A key longer than every key in use, hence not in use.\<close>

definition fresh_key :: "string list \<Rightarrow> string" where
  "fresh_key ks = replicate (Suc (fold max (map length ks) 0)) (CHR ''0'')"

record upload =
  upload_id :: string
  upload_path :: string

text \<open>
  Modelled from the spec: the Asset Store Adapter is an external service (the DatoCMS
  client library), missing from the sources. Section 6 gives
  \<^verbatim>\<open>createFromContent(bytes, filename) -> {id, address}\<close>,
  \<^verbatim>\<open>updateContent(id, address) -> void\<close> and \<^verbatim>\<open>destroy(id) -> void\<close>; section 3 says
  that an asset's id is immutable and its content address mutable. Creation stores the
  bytes under an address that no file and no asset has yet and registers a new id for it.
\<close>

definition uploads_createFromFileOrBlob :: "string \<Rightarrow> string \<Rightarrow> upload io" where
  "uploads_createFromFileOrBlob bytes fname =
     request (UploadsCreate bytes fname)
       (\<lambda>w. let uid = fresh_key (map fst (upload_table w));
                 p = fresh_key (map fst (file_table w) @ map snd (upload_table w)) @ ''-'' @ fname
             in (Inr \<lparr>upload_id = uid, upload_path = p\<rparr>,
                 w\<lparr>upload_table := (uid, p) # upload_table w, file_table := (p, bytes) # file_table w\<rparr>))"

text \<open>
  Modelled from the spec: \<^verbatim>\<open>updateContent(id, address)\<close> of the Asset Store Adapter
  (section 6) points an existing id at the given address and keeps the id (sections 2
  and 3); a request on an unknown id is rejected.
\<close>

definition uploads_update :: "string \<Rightarrow> string \<Rightarrow> unit io" where
  "uploads_update uid p =
     request (UploadsUpdate uid p)
       (\<lambda>w. case map_of (upload_table w) uid of
               None \<Rightarrow> (Inl (NotFound (UploadsUpdate uid p)), w)
             | Some old \<Rightarrow> (Inr (), w\<lparr>upload_table := AList.update uid p (upload_table w)\<rparr>))"

text \<open>
  Modelled from the spec: \<^verbatim>\<open>destroy(id)\<close> of the Asset Store Adapter (section 6) removes
  the id; the bytes stay at their address, which other ids may share.
\<close>

definition uploads_destroy :: "string \<Rightarrow> unit io" where
  "uploads_destroy uid =
     request (UploadsDestroy uid)
       (\<lambda>w. case map_of (upload_table w) uid of
               None \<Rightarrow> (Inl (NotFound (UploadsDestroy uid)), w)
             | Some old \<Rightarrow> (Inr (), w\<lparr>upload_table := AList.delete uid (upload_table w)\<rparr>))"

text \<open>The bytes an asset id resolves to: the content stored at its content address.\<close>

definition resolved_content :: "world \<Rightarrow> string \<Rightarrow> string option" where
  "resolved_content w uid =
     (case map_of (upload_table w) uid of None \<Rightarrow> None | Some p \<Rightarrow> map_of (file_table w) p)"

text \<open>
  Modelled from the spec: the Record Store Adapter is external as well. Section 6 gives
  \<^verbatim>\<open>find(id) -> Record\<close>; an unknown id is rejected.
\<close>

definition items_find :: "string \<Rightarrow> item io" where
  "items_find rid =
     request (ItemsFind rid)
       (\<lambda>w. case map_of (item_table w) rid of
               None \<Rightarrow> (Inl (NotFound (ItemsFind rid)), w)
             | Some it \<Rightarrow> (Inr it, w))"

text \<open>
  Modelled from the spec: \<^verbatim>\<open>create(model, attrs) -> Record\<close> of the Record Store Adapter
  (section 6); the created record carries the attributes it was given, flattened, under a
  store-assigned id.
\<close>

definition items_create :: "string \<Rightarrow> (string \<times> json) list \<Rightarrow> item io" where
  "items_create modelId attrs =
     request (ItemsCreate modelId attrs)
       (\<lambda>w. let it = \<lparr>item_id = fresh_key (map fst (item_table w)), item_type_rel = Some modelId,
                       item_attributes = None, item_fields = attrs\<rparr>
             in (Inr it, w\<lparr>item_table := (item_id it, it) # item_table w\<rparr>))"

text \<open>
  Modelled from the spec: the probe of section 4.4 lists the models of the Record Store.
\<close>

definition itemTypes_list :: "item_type list io" where
  "itemTypes_list = request ItemTypesList (\<lambda>w. (Inr (item_type_table w), w))"

text \<open>
  Modelled from the spec: the host call that persists the configuration surface of
  section 6; the stored parameters become the ones given.
\<close>

definition updatePluginParameters :: "global_parameters \<Rightarrow> unit io" where
  "updatePluginParameters p =
     request (UpdatePluginParameters p) (\<lambda>w. (Inr (), w\<lparr>parameters := p\<rparr>))"

section \<open>The synchronisation engine (recordHelpers.ts)\<close>

text \<open>
  \<^verbatim>\<open>updateExistingUploadWithSvgContent\<close>: create a temporary upload from the SVG text,
  point the existing upload at the temporary upload's path, and destroy the temporary
  upload in a \<^verbatim>\<open>finally\<close> block. The token and environment only configure the client.
\<close>

definition updateExistingUploadWithSvgContent ::
  "string \<Rightarrow> string \<Rightarrow> string \<Rightarrow> string \<Rightarrow> string \<Rightarrow> unit io" where
  "updateExistingUploadWithSvgContent apiToken uploadId rawSvg fname env =
     io_bind (uploads_createFromFileOrBlob rawSvg (fname @ ''.svg''))
       (\<lambda>tempUpload.
          try_finally (uploads_update uploadId (upload_path tempUpload))
                      (uploads_destroy (upload_id tempUpload)))"

text \<open>
  The part of \<^verbatim>\<open>syncMediaOnItemUpsert\<close> inside its first \<^verbatim>\<open>try\<close>: \<open>load_current\<close>
  fetches the current record and \<open>merge_current\<close> completes \<open>itemTypeId\<close>, \<open>uploadId\<close>
  and \<open>name\<close> from it. \<open>None\<close> is the \<^verbatim>\<open>return\<close> taken when the record is of another
  model.
\<close>

definition current_name :: "item \<Rightarrow> json option" where
  "current_name itemData =
     (case item_attributes itemData of
        None \<Rightarrow> map_of (item_fields itemData) ''name''
      | Some a \<Rightarrow>
          (case map_of a ''name'' of
             None \<Rightarrow> map_of (item_fields itemData) ''name''
           | Some JNull \<Rightarrow> map_of (item_fields itemData) ''name''
           | Some v \<Rightarrow> Some v))"

definition merge_current ::
  "item \<Rightarrow> string option \<Rightarrow> string option \<Rightarrow> string \<Rightarrow> string option
     \<Rightarrow> (string option \<times> string \<times> string option) option" where
  "merge_current itemData modelId uploadId name itemTypeId =
     (let itemTypeId' = (if \<not> truthy itemTypeId then item_type_rel itemData else itemTypeId)
      in if itemTypeId' \<noteq> modelId then None
         else
           let currentAttrs =
                 (case item_attributes itemData of Some a \<Rightarrow> a | None \<Rightarrow> item_fields itemData);
               uploadId' =
                 (if \<not> truthy uploadId
                  then (case upload_id_of (map_of currentAttrs ''media_upload'') of
                          Some s \<Rightarrow> Some s
                        | None \<Rightarrow> uploadId)
                  else uploadId);
               name' =
                 (if name = ''untitled'' \<and> js_truthy (current_name itemData)
                  then (case current_name itemData of Some v \<Rightarrow> js_String v | None \<Rightarrow> name)
                  else name)
           in Some (uploadId', name', itemTypeId'))"

definition load_current ::
  "string \<Rightarrow> string option \<Rightarrow> string option \<Rightarrow> string \<Rightarrow> string option
     \<Rightarrow> (string option \<times> string \<times> string option) option io" where
  "load_current rid modelId uploadId name itemTypeId =
     io_bind (items_find rid)
       (\<lambda>itemData. return (merge_current itemData modelId uploadId name itemTypeId))"

definition syncMediaOnItemUpsert ::
  "(string \<Rightarrow> bool) \<Rightarrow> item_upsert_payload \<Rightarrow> string option \<Rightarrow> string \<Rightarrow> string option
     \<Rightarrow> unit io" where
  "syncMediaOnItemUpsert isSvg payload apiToken env modelId =
     (if \<not> truthy apiToken \<or> \<not> truthy modelId then return ()
      else
        let attrs = (case data_attributes payload of Some a \<Rightarrow> a | None \<Rightarrow> []);
            svgContent = attr_string attrs ''svg_content'' []
        in if svgContent = [] \<or> \<not> isSvg svgContent then return ()
           else
             let uploadId = upload_id_of (map_of attrs ''media_upload'');
                 name = attr_string attrs ''name'' ''untitled'';
                 itemTypeId = data_item_type_id payload
             in io_bind
                  (case data_id payload of
                     None \<Rightarrow> return (Some (uploadId, name, itemTypeId))
                   | Some rid \<Rightarrow>
                       if rid = [] then return (Some (uploadId, name, itemTypeId))
                       else try_catch (load_current rid modelId uploadId name itemTypeId)
                              (\<lambda>err. io_bind
                                 (console_error
                                    ''[Everything SVG] Auto-sync media: failed to load current record''
                                    err)
                                 (\<lambda>u. return None)))
                  (\<lambda>resolved.
                     case resolved of
                       None \<Rightarrow> return ()
                     | Some (uploadId', name', itemTypeId') \<Rightarrow>
                         (case uploadId' of
                            None \<Rightarrow> return ()
                          | Some uid \<Rightarrow>
                              if uid = [] \<or> itemTypeId' \<noteq> modelId then return ()
                              else try_catch
                                     (updateExistingUploadWithSvgContent
                                        (case apiToken of Some t \<Rightarrow> t | None \<Rightarrow> [])
                                        uid svgContent
                                        (if name' = [] then ''untitled'' else name') env)
                                     (console_error
                                        ''[Everything SVG] Auto-sync media on save failed:''))))"

text \<open>
  The hook \<^verbatim>\<open>onBeforeItemUpsert\<close> of index.tsx: it awaits the sync and then returns
  \<^verbatim>\<open>true\<close>; an error escaping the sync would reject the hook.
\<close>

definition onBeforeItemUpsert ::
  "(string \<Rightarrow> bool) \<Rightarrow> item_upsert_payload \<Rightarrow> plugin_ctx \<Rightarrow> bool io" where
  "onBeforeItemUpsert isSvg payload ctx =
     (let pluginParameters = plugin_parameters ctx
      in if \<not> isSetupComplete pluginParameters \<or> \<not> truthy (svgModelId pluginParameters)
         then return True
         else io_bind
                (syncMediaOnItemUpsert isSvg payload (currentUserAccessToken ctx)
                   (environment ctx) (svgModelId pluginParameters))
                (\<lambda>u. return True))"

section \<open>The migration engine (modelHelpers.ts, ConfigScreen.tsx)\<close>

text \<open>
  The body of the \<^verbatim>\<open>for\<close> loop of \<^verbatim>\<open>migrateSvgsToRecords\<close> builds \<open>recordData\<close> from
  a legacy entry; the \<^verbatim>\<open>item_type\<close> member is the model id passed to the Record Store.
\<close>

definition recordData :: "svg_upload \<Rightarrow> (string \<times> json) list" where
  "recordData svg =
     [(''name'', JStr (if truthy (filename svg)
                       then (case filename svg of Some f \<Rightarrow> f | None \<Rightarrow> [])
                       else ''Untitled SVG'')),
      (''svg_content'', JStr (raw svg)),
      (''svg_type'', JStr (kind_str (svg_type svg)))]
     @ (if svg_type svg = Image \<and> truthy (imageId svg)
        then [(''media_upload'',
               JObj [(''upload_id'', JStr (case imageId svg of Some i \<Rightarrow> i | None \<Rightarrow> []))])]
        else [])"

definition entry_label :: "svg_upload \<Rightarrow> string" where
  "entry_label svg =
     (if truthy (filename svg) then (case filename svg of Some f \<Rightarrow> f | None \<Rightarrow> [])
      else su_id svg)"

definition migrate_entry :: "string \<Rightarrow> svg_upload \<Rightarrow> item list \<Rightarrow> item list io" where
  "migrate_entry modelId svg migratedRecords =
     try_catch
       (io_bind (items_create modelId (recordData svg))
          (\<lambda>record. return (migratedRecords @ [record])))
       (\<lambda>err. io_bind
          (console_error (''Error migrating SVG '' @ entry_label svg @ '':'') err)
          (\<lambda>u. return migratedRecords))"

fun migrate_loop :: "string \<Rightarrow> svg_upload list \<Rightarrow> item list \<Rightarrow> item list io" where
  "migrate_loop modelId [] migratedRecords w = (Inr migratedRecords, w)"
| "migrate_loop modelId (svg # rest) migratedRecords w =
     (case migrate_entry modelId svg migratedRecords w of
        (Inl e, w') \<Rightarrow> (Inl e, w')
      | (Inr acc, w') \<Rightarrow> migrate_loop modelId rest acc w')"

definition migrateSvgsToRecords :: "string \<Rightarrow> string \<Rightarrow> svg_upload list \<Rightarrow> item list io" where
  "migrateSvgsToRecords apiToken modelId entries = migrate_loop modelId entries []"

definition alert :: "string \<Rightarrow> unit io" where
  "alert msg w = (Inr (), w\<lparr>ui := ui w @ [Alert msg]\<rparr>)"

definition notice :: "string \<Rightarrow> unit io" where
  "notice msg w = (Inr (), w\<lparr>ui := ui w @ [Notice msg]\<rparr>)"

text \<open>The text of an error, \<^verbatim>\<open>error.message\<close>; the client library chooses it.\<close>

fun error_message :: "error \<Rightarrow> string" where
  "error_message (RequestFailed c) = ''Request failed''"
| "error_message (NotFound c) = ''Not found''"

text \<open>
  \<^verbatim>\<open>handleMigration\<close> of the configuration screen; \<open>confirmed\<close> is the choice the
  confirmation dialog returns. The React flag \<^verbatim>\<open>isMigrating\<close> only drives the spinner
  and is left out.
\<close>

definition handleMigration :: "plugin_ctx \<Rightarrow> string \<Rightarrow> unit io" where
  "handleMigration ctx confirmed =
     (let pluginParameters = plugin_parameters ctx;
          svgsToMigrate = (case svgs pluginParameters of Some l \<Rightarrow> l | None \<Rightarrow> [])
      in if length svgsToMigrate = 0 then alert ''No SVGs to migrate!''
         else if \<not> truthy (svgModelId pluginParameters)
         then alert ''SVG model not found! Please complete setup first.''
         else if confirmed \<noteq> ''migrate'' then return ()
         else try_catch
                (io_bind
                   (migrateSvgsToRecords
                      (case currentUserAccessToken ctx of Some t \<Rightarrow> t | None \<Rightarrow> [])
                      (case svgModelId pluginParameters of Some i \<Rightarrow> i | None \<Rightarrow> [])
                      svgsToMigrate)
                   (\<lambda>migrated. io_bind
                      (updatePluginParameters (pluginParameters\<lparr>svgs := Some []\<rparr>))
                      (\<lambda>u. notice (''Successfully migrated ''
                                    @ string_of_nat (length svgsToMigrate)
                                    @ '' SVG(s) to records!''))))
                (\<lambda>err. io_bind (console_error ''Migration error:'' err)
                   (\<lambda>u. alert (''Migration failed: '' @ error_message err))))"

section \<open>The bootstrap reconciler (index.tsx, modelHelpers.ts)\<close>

text \<open>
  Modelled from the spec: \<^verbatim>\<open>lib/constants.ts\<close> is missing from the sources. Section 4.4
  calls the key a fixed, well-known schema key baked into the system; the setup screens
  print the model as "Plugin SVG" with API key "plugin_svg".
\<close>

definition SVG_MODEL_API_KEY :: string where
  "SVG_MODEL_API_KEY = ''plugin_svg''"

text \<open>
  Modelled from the spec: the display name of the managed model, from the same missing
  \<^verbatim>\<open>lib/constants.ts\<close>; the setup screens print it as "Plugin SVG".
\<close>

definition SVG_MODEL_NAME :: string where
  "SVG_MODEL_NAME = ''Plugin SVG''"

text \<open>
  Modelled from the spec: the schema requests of the Record Store, which the external
  Model Provisioner of section 2 uses. A created model gets a store-assigned id.
\<close>

definition itemTypes_create :: "string \<Rightarrow> string \<Rightarrow> item_type io" where
  "itemTypes_create nm key =
     request (ItemTypesCreate nm key)
       (\<lambda>w. let it = \<lparr>it_id = fresh_key (map it_id (item_type_table w)), it_api_key = key,
                       it_name = nm, it_field_keys = [], it_title_field = None\<rparr>
             in (Inr it, w\<lparr>item_type_table := item_type_table w @ [it]\<rparr>))"

text \<open>
  Modelled from the spec: creating a field of a model of the Record Store; a field is known
  by its API key, and an unknown model is rejected.
\<close>

definition fields_create :: "string \<Rightarrow> string \<Rightarrow> unit io" where
  "fields_create modelId key =
     request (FieldsCreate modelId key)
       (\<lambda>w. if modelId \<in> set (map it_id (item_type_table w))
            then (Inr (),
                  w\<lparr>item_type_table :=
                      map (\<lambda>it. if it_id it = modelId
                                 then it\<lparr>it_field_keys := it_field_keys it @ [key]\<rparr> else it)
                        (item_type_table w)\<rparr>)
            else (Inl (NotFound (FieldsCreate modelId key)), w))"

text \<open>Modelled from the spec: listing the fields of a model of the Record Store.\<close>

definition fields_list :: "string \<Rightarrow> string list io" where
  "fields_list modelId =
     request (FieldsList modelId)
       (\<lambda>w. case find (\<lambda>it. it_id it = modelId) (item_type_table w) of
               None \<Rightarrow> (Inl (NotFound (FieldsList modelId)), w)
             | Some it \<Rightarrow> (Inr (it_field_keys it), w))"

text \<open>Modelled from the spec: setting the title field of a model of the Record Store.\<close>

definition itemTypes_update :: "string \<Rightarrow> string \<Rightarrow> unit io" where
  "itemTypes_update modelId titleField =
     request (ItemTypesUpdate modelId titleField)
       (\<lambda>w. if modelId \<in> set (map it_id (item_type_table w))
            then (Inr (),
                  w\<lparr>item_type_table :=
                      map (\<lambda>it. if it_id it = modelId
                                 then it\<lparr>it_title_field := Some titleField\<rparr> else it)
                        (item_type_table w)\<rparr>)
            else (Inl (NotFound (ItemTypesUpdate modelId titleField)), w))"

text \<open>
  \<^verbatim>\<open>createSvgModel\<close>, the Model Provisioner: it creates the model and its four fields
  and makes \<^verbatim>\<open>name\<close> the title field; an error is logged and rethrown.
\<close>

definition createSvgModel :: "string \<Rightarrow> string option \<Rightarrow> item_type io" where
  "createSvgModel apiToken env =
     try_catch
       (io_bind (itemTypes_create SVG_MODEL_NAME SVG_MODEL_API_KEY)
          (\<lambda>itemType.
             io_bind (fields_create (it_id itemType) ''name'')
               (\<lambda>u. io_bind (fields_create (it_id itemType) ''svg_content'')
                  (\<lambda>u. io_bind (fields_create (it_id itemType) ''svg_type'')
                     (\<lambda>u. io_bind (fields_create (it_id itemType) ''media_upload'')
                        (\<lambda>u. io_bind (fields_list (it_id itemType))
                           (\<lambda>nameField.
                              io_bind
                                (case find (\<lambda>f. f = ''name'') nameField of
                                   None \<Rightarrow> return ()
                                 | Some nameFieldId \<Rightarrow>
                                     if nameFieldId = [] then return ()
                                     else itemTypes_update (it_id itemType) nameFieldId)
                                (\<lambda>u. return itemType))))))))
       (\<lambda>err. io_bind (console_error ''Error creating SVG model:'' err)
          (\<lambda>u w. (Inl err, w)))"

text \<open>
  \<^verbatim>\<open>checkIfModelExists\<close>: list the models, take the first whose API key is the schema
  key, and return \<^verbatim>\<open>svgModel?.id || null\<close>; a failing request is logged and gives
  \<^verbatim>\<open>null\<close>.
\<close>

definition checkIfModelExists :: "string \<Rightarrow> string option io" where
  "checkIfModelExists apiToken =
     try_catch
       (io_bind itemTypes_list
          (\<lambda>tys. return
             (case find (\<lambda>it. it_api_key it = SVG_MODEL_API_KEY) tys of
                None \<Rightarrow> None
              | Some svgModel \<Rightarrow> if it_id svgModel = [] then None else Some (it_id svgModel))))
       (\<lambda>err. io_bind (console_error ''Error checking for SVG model:'' err)
          (\<lambda>u. return None))"

text \<open>\<^verbatim>\<open>onBoot\<close> of index.tsx (the \<^verbatim>\<open>console.log\<close> lines print nothing that is kept).\<close>

definition onBoot :: "plugin_ctx \<Rightarrow> unit io" where
  "onBoot ctx =
     (let pluginParameters = plugin_parameters ctx
      in if \<not> isSetupComplete pluginParameters
         then io_bind
                (checkIfModelExists
                   (case currentUserAccessToken ctx of Some t \<Rightarrow> t | None \<Rightarrow> []))
                (\<lambda>existingModelId.
                   if truthy existingModelId
                   then updatePluginParameters
                          (pluginParameters\<lparr>svgModelId := existingModelId,
                                             isSetupComplete := True\<rparr>)
                   else return ())
         else return ())"

section \<open>Vocabulary for the properties\<close>

text \<open>The requests issued between two worlds of one run.\<close>

definition issued :: "world \<Rightarrow> world \<Rightarrow> (call \<times> bool) list" where
  "issued w w' = drop (length (calls w)) (calls w')"

fun is_upload_call :: "call \<Rightarrow> bool" where
  "is_upload_call (UploadsCreate b f) = True"
| "is_upload_call (UploadsUpdate u p) = True"
| "is_upload_call (UploadsDestroy u) = True"
| "is_upload_call c = False"

text \<open>A request that only the Model Provisioner issues.\<close>

fun is_provisioning_call :: "call \<Rightarrow> bool" where
  "is_provisioning_call (ItemTypesCreate n k) = True"
| "is_provisioning_call (ItemTypesUpdate m t) = True"
| "is_provisioning_call (FieldsCreate m k) = True"
| "is_provisioning_call (FieldsList m) = True"
| "is_provisioning_call c = False"

text \<open>The id and the content address the Asset Store hands out to the next upload.\<close>

definition temp_id :: "world \<Rightarrow> string" where
  "temp_id w = fresh_key (map fst (upload_table w))"

definition temp_path :: "world \<Rightarrow> string \<Rightarrow> string" where
  "temp_path w f = fresh_key (map fst (file_table w) @ map snd (upload_table w)) @ ''-'' @ f"

text \<open>What the mutation event carries, as \<^verbatim>\<open>syncMediaOnItemUpsert\<close> reads it.\<close>

definition event_attrs :: "item_upsert_payload \<Rightarrow> (string \<times> json) list" where
  "event_attrs p = (case data_attributes p of Some a \<Rightarrow> a | None \<Rightarrow> [])"

definition event_svg_content :: "item_upsert_payload \<Rightarrow> string" where
  "event_svg_content p = attr_string (event_attrs p) ''svg_content'' []"

definition event_upload_id :: "item_upsert_payload \<Rightarrow> string option" where
  "event_upload_id p = upload_id_of (map_of (event_attrs p) ''media_upload'')"

definition event_name :: "item_upsert_payload \<Rightarrow> string" where
  "event_name p = attr_string (event_attrs p) ''name'' ''untitled''"

text \<open>The stored record an update event refers to, and what it carries.\<close>

definition current_item :: "world \<Rightarrow> item_upsert_payload \<Rightarrow> item option" where
  "current_item w p =
     (case data_id p of
        None \<Rightarrow> None
      | Some rid \<Rightarrow> if rid = [] then None else map_of (item_table w) rid)"

definition current_upload_id :: "world \<Rightarrow> item_upsert_payload \<Rightarrow> string option" where
  "current_upload_id w p =
     (case current_item w p of
        None \<Rightarrow> None
      | Some it \<Rightarrow>
          upload_id_of
            (map_of (case item_attributes it of Some a \<Rightarrow> a | None \<Rightarrow> item_fields it)
               ''media_upload''))"

definition current_item_type :: "world \<Rightarrow> item_upsert_payload \<Rightarrow> string option" where
  "current_item_type w p =
     (case current_item w p of None \<Rightarrow> None | Some it \<Rightarrow> item_type_rel it)"

text \<open>The second \<^verbatim>\<open>try\<close>/\<^verbatim>\<open>catch\<close> of the sync: an error of the body is logged.\<close>

definition logged :: "string \<Rightarrow> (error + unit) \<times> world \<Rightarrow> (error + unit) \<times> world" where
  "logged msg rw =
     (case rw of
        (Inl e, w) \<Rightarrow> (Inr (), w\<lparr>console := console w @ [(msg, e)]\<rparr>)
      | (Inr u, w) \<Rightarrow> (Inr (), w))"

text \<open>The last step of the sync, after the upload id and the model id are resolved.\<close>

definition swap_step ::
  "item_upsert_payload \<Rightarrow> string option \<Rightarrow> string \<Rightarrow> string option \<Rightarrow> string option
     \<Rightarrow> string \<Rightarrow> string option \<Rightarrow> unit io" where
  "swap_step p tok env m u nm t w =
     (if \<not> truthy u \<or> t \<noteq> m then (Inr (), w)
      else logged ''[Everything SVG] Auto-sync media on save failed:''
             (updateExistingUploadWithSvgContent (case tok of Some t \<Rightarrow> t | None \<Rightarrow> [])
                (case u of Some x \<Rightarrow> x | None \<Rightarrow> []) (event_svg_content p)
                (if nm = [] then ''untitled'' else nm) env w))"

section \<open>Auxiliary definitions\<close>

text \<open>Whether the content-replace request of a swap started in \<open>w\<close> succeeds: the
  environment does not reject it and the upload exists (the upload created just before
  counts as existing).\<close>

definition update_ok :: "world \<Rightarrow> string \<Rightarrow> bool" where
  "update_ok w uid = (\<not> head_fault (tl (faults w)) \<and> (uid = temp_id w \<or> map_of (upload_table w) uid \<noteq> None))"

text \<open>The world after one \<^verbatim>\<open>items.find\<close> request.\<close>

definition after_find :: "world \<Rightarrow> string \<Rightarrow> bool \<Rightarrow> world" where
  "after_find w rid ok = w\<lparr>faults := tl (faults w), calls := calls w @ [(ItemsFind rid, ok)]\<rparr>"

text \<open>The first two guards of the sync pass: a token, a model id and well-formed content.\<close>

definition sync_ready :: "(string \<Rightarrow> bool) \<Rightarrow> item_upsert_payload \<Rightarrow> string option \<Rightarrow> string option \<Rightarrow> bool" where
  "sync_ready isSvg p tok m =
     (truthy tok \<and> truthy m \<and> event_svg_content p \<noteq> [] \<and> isSvg (event_svg_content p))"

text \<open>The upload id the sync resolves: the event's own when it is a non-empty string, else
  the one of the stored record.\<close>

definition resolved_upload_id :: "world \<Rightarrow> item_upsert_payload \<Rightarrow> string option" where
  "resolved_upload_id w p =
     (if truthy (event_upload_id p) then event_upload_id p else current_upload_id w p)"

text \<open>The model id the sync resolves: the event's own when it is a non-empty string, else
  the one of the stored record.\<close>

definition resolved_item_type :: "world \<Rightarrow> item_upsert_payload \<Rightarrow> string option" where
  "resolved_item_type w p =
     (if truthy (data_item_type_id p) then data_item_type_id p else current_item_type w p)"

text \<open>The entries whose create request succeeded, in input order; the trace is aligned
  with the entries, one request per entry.\<close>

definition migrated_entries :: "svg_upload list \<Rightarrow> (call \<times> bool) list \<Rightarrow> svg_upload list" where
  "migrated_entries entries tr = map fst (filter snd (zip entries (map snd tr)))"

text \<open>The record the Record Store creates in \<open>w\<close> for the given attributes.\<close>

definition new_item :: "world \<Rightarrow> string \<Rightarrow> (string \<times> json) list \<Rightarrow> item" where
  "new_item w modelId attrs =
     \<lparr>item_id = fresh_key (map fst (item_table w)), item_type_rel = Some modelId,
      item_attributes = None, item_fields = attrs\<rparr>"

text \<open>What one run of the migration loop does, for a trace \<open>tr\<close> and new records \<open>recs\<close>.\<close>

definition run_summary ::
  "string \<Rightarrow> svg_upload list \<Rightarrow> item list \<Rightarrow> world \<Rightarrow> (error + item list) \<Rightarrow> world
     \<Rightarrow> (call \<times> bool) list \<Rightarrow> item list \<Rightarrow> bool" where
  "run_summary m entries acc w r w' tr recs =
     (calls w' = calls w @ tr \<and> r = Inr (acc @ recs) \<and>
      map fst tr = map (\<lambda>e. ItemsCreate m (recordData e)) entries \<and>
      map item_fields recs = map recordData (migrated_entries entries tr) \<and>
      length (console w') = length (console w) + length (filter (\<lambda>x. \<not> snd x) tr) \<and>
      upload_table w' = upload_table w \<and> file_table w' = file_table w \<and>
      parameters w' = parameters w)"

text \<open>The value \<^verbatim>\<open>svgModel?.id || null\<close> computed from the models of \<open>w\<close>.\<close>

definition found_model_id :: "world \<Rightarrow> string option" where
  "found_model_id w =
     (case find (\<lambda>it. it_api_key it = SVG_MODEL_API_KEY) (item_type_table w) of
        None \<Rightarrow> None
      | Some svgModel \<Rightarrow> if it_id svgModel = [] then None else Some (it_id svgModel))"

text \<open>Sample data for the closed instances at the end: a stand-in for the well-formedness
  check, a stored record with an asset, the managed model, and worlds that differ in the
  script of rejected requests.\<close>

definition demo_isSvg :: "string \<Rightarrow> bool" where
  "demo_isSvg s = (take 4 s = ''<svg'')"

definition demo_item :: item where
  "demo_item = \<lparr>item_id = ''r1'', item_type_rel = Some ''m1'', item_attributes = None,
                 item_fields = [(''name'', JStr ''logo''),
                                (''media_upload'', JObj [(''upload_id'', JStr ''a1'')])]\<rparr>"

definition demo_model :: item_type where
  "demo_model = \<lparr>it_id = ''m1'', it_api_key = ''plugin_svg'', it_name = ''Plugin SVG'',
                  it_field_keys = [''name'', ''svg_content'', ''media_upload''],
                  it_title_field = Some ''name''\<rparr>"

definition demo_parameters :: global_parameters where
  "demo_parameters = \<lparr>isSetupComplete = False, svgModelId = None, svgs = None\<rparr>"

definition demo_world :: "bool list \<Rightarrow> world" where
  "demo_world fs =
     \<lparr>upload_table = [(''a1'', ''/7/old.svg'')],
      file_table = [(''/7/old.svg'', ''<svg>old</svg>'')],
      item_table = [(''r1'', demo_item)],
      item_type_table = [demo_model],
      parameters = demo_parameters,
      faults = fs, calls = [], console = [], ui = []\<rparr>"

definition demo_update :: item_upsert_payload where
  "demo_update = \<lparr>data_id = Some ''r1'',
                   data_attributes = Some [(''svg_content'', JStr ''<svg>new</svg>'')],
                   data_item_type_id = None\<rparr>"




text \<open>The trace of the second world extends the trace of the first.\<close>

definition grows :: "world \<Rightarrow> world \<Rightarrow> bool" where
  "grows w w' = (\<exists>tr. calls w' = calls w @ tr)"

definition demo_ctx :: plugin_ctx where
  "demo_ctx = \<lparr>plugin_parameters = \<lparr>isSetupComplete = True, svgModelId = Some ''m1'', svgs = None\<rparr>,
                currentUserAccessToken = Some ''tok'', environment = ''main''\<rparr>"

definition demo_boot_ctx :: plugin_ctx where
  "demo_boot_ctx = \<lparr>plugin_parameters = demo_parameters,
                     currentUserAccessToken = Some ''tok'', environment = ''main''\<rparr>"

definition demo_invalid :: item_upsert_payload where
  "demo_invalid = \<lparr>data_id = Some ''r1'',
                    data_attributes = Some [(''svg_content'', JStr ''hello'')],
                    data_item_type_id = Some ''m1''\<rparr>"


definition demo_entry_A :: svg_upload where
  "demo_entry_A = \<lparr>su_id = ''1'', filename = Some ''a'', raw = ''<svg>a</svg>'',
                    svg_type = Svg, imageId = None\<rparr>"

definition demo_entry_B :: svg_upload where
  "demo_entry_B = \<lparr>su_id = ''2'', filename = Some ''b'', raw = ''<svg>b</svg>'',
                    svg_type = Image, imageId = Some ''a1''\<rparr>"

definition demo_entry_C :: svg_upload where
  "demo_entry_C = \<lparr>su_id = ''3'', filename = None, raw = ''<svg>c</svg>'',
                    svg_type = Svg, imageId = None\<rparr>"

definition demo_legacy_ctx :: plugin_ctx where
  "demo_legacy_ctx =
     \<lparr>plugin_parameters = \<lparr>isSetupComplete = True, svgModelId = Some ''m1'',
                            svgs = Some [demo_entry_A, demo_entry_B]\<rparr>,
      currentUserAccessToken = Some ''tok'', environment = ''main''\<rparr>"

definition demo_sync :: "item_upsert_payload \<Rightarrow> world \<Rightarrow> (error + unit) \<times> world" where
  "demo_sync p w = syncMediaOnItemUpsert demo_isSvg p (Some ''tok'') ''main'' (Some ''m1'') w"

definition demo_swap :: "world \<Rightarrow> (error + unit) \<times> world" where
  "demo_swap w = updateExistingUploadWithSvgContent ''tok'' ''a1'' ''<svg>new</svg>'' ''logo'' ''main'' w"

definition demo_migrate :: "svg_upload list \<Rightarrow> world \<Rightarrow> (error + item list) \<times> world" where
  "demo_migrate entries w = migrateSvgsToRecords ''tok'' ''m1'' entries w"

section \<open>The stores hand out unused keys\<close>

lemma fold_max_ge: "n \<le> fold max ns (n::nat)"
  by (induction ns arbitrary: n) (auto intro: order_trans[OF max.cobounded2])

lemma fold_max_mem: "k \<in> set ns \<Longrightarrow> k \<le> fold max ns (n::nat)"
proof (induction ns arbitrary: n)
  case Nil then show ?case by simp
next
  case (Cons a ns)
  show ?case
  proof (cases "k = a")
    case True
    have "a \<le> max a n" by simp
    also have "\<dots> \<le> fold max ns (max a n)" by (rule fold_max_ge)
    finally show ?thesis using True by simp
  next
    case False
    with Cons show ?thesis by simp
  qed
qed

lemma fresh_key_longer: "k \<in> set ks \<Longrightarrow> length k < length (fresh_key ks)"
  using fold_max_mem[of "length k" "map length ks" 0] by (simp add: fresh_key_def)

lemma fresh_key_suffix_fresh: "fresh_key ks @ s \<notin> set ks"
  using fresh_key_longer[of "fresh_key ks @ s" ks] by auto

lemma temp_id_fresh: "map_of (upload_table w) (temp_id w) = None"
  using fresh_key_suffix_fresh[of "map fst (upload_table w)" "[]"]
  by (simp add: temp_id_def map_of_eq_None_iff)

lemma temp_path_unused: "map_of (upload_table w) u \<noteq> Some (temp_path w f)"
proof
  assume "map_of (upload_table w) u = Some (temp_path w f)"
  then have "temp_path w f \<in> set (map snd (upload_table w))"
    by (force dest: map_of_SomeD)
  then show False
    using fresh_key_suffix_fresh[of "map fst (file_table w) @ map snd (upload_table w)" "''-'' @ f"]
    by (simp add: temp_path_def)
qed

section \<open>The swap, request by request\<close>

lemmas io_defs = return_def io_bind_def try_catch_def try_finally_def console_error_def

lemma create_eq:
  "uploads_createFromFileOrBlob c f w =
     (if head_fault (faults w)
      then (Inl (RequestFailed (UploadsCreate c f)),
            w\<lparr>faults := tl (faults w), calls := calls w @ [(UploadsCreate c f, False)]\<rparr>)
      else (Inr \<lparr>upload_id = temp_id w, upload_path = temp_path w f\<rparr>,
            w\<lparr>faults := tl (faults w),
              upload_table := (temp_id w, temp_path w f) # upload_table w,
              file_table := (temp_path w f, c) # file_table w,
              calls := calls w @ [(UploadsCreate c f, True)]\<rparr>))"
  by (simp add: uploads_createFromFileOrBlob_def request_def is_ok_def Let_def temp_id_def temp_path_def)

lemma swap_eq:
  "updateExistingUploadWithSvgContent tok uid c f e w =
     (let cr = UploadsCreate c (f @ ''.svg''); tid = temp_id w; tp = temp_path w (f @ ''.svg'');
          up = UploadsUpdate uid tp; de = UploadsDestroy tid;
          f1 = tl (faults w); f2 = tl f1;
          b1 = (\<not> head_fault f1 \<and> (uid = tid \<or> map_of (upload_table w) uid \<noteq> None));
          b2 = (\<not> head_fault f2);
          tbl1 = (tid, tp) # upload_table w;
          tbl2 = (if b1 then AList.update uid tp tbl1 else tbl1);
          tbl3 = (if b2 then AList.delete tid tbl2 else tbl2)
      in if head_fault (faults w)
         then (Inl (RequestFailed cr), w\<lparr>faults := f1, calls := calls w @ [(cr, False)]\<rparr>)
         else (if \<not> b2 then Inl (RequestFailed de)
               else if b1 then Inr ()
               else Inl (if head_fault f1 then RequestFailed up else NotFound up),
               w\<lparr>faults := tl f2, upload_table := tbl3, file_table := (tp, c) # file_table w,
                 calls := calls w @ [(cr, True), (up, b1), (de, b2)]\<rparr>))"
  by (simp add: updateExistingUploadWithSvgContent_def create_eq uploads_update_def
      uploads_destroy_def request_def is_ok_def Let_def io_defs update_conv' split: option.splits)

lemma swap_frame:
  assumes "updateExistingUploadWithSvgContent tok uid c f e w = (r, w')"
  shows "console w' = console w" and "item_table w' = item_table w"
    and "parameters w' = parameters w" and "item_type_table w' = item_type_table w"
  using assms by (auto simp: swap_eq Let_def split: if_splits)

lemma swap_trace:
  assumes "updateExistingUploadWithSvgContent tok uid c f e w = (r, w')"
  shows "calls w' = calls w @ issued w w'"
    and "issued w w' =
           (if head_fault (faults w) then [(UploadsCreate c (f @ ''.svg''), False)]
            else [(UploadsCreate c (f @ ''.svg''), True),
                  (UploadsUpdate uid (temp_path w (f @ ''.svg'')), update_ok w uid),
                  (UploadsDestroy (temp_id w), \<not> head_fault (tl (tl (faults w))))])"
    and "is_ok r = (\<not> head_fault (faults w) \<and> update_ok w uid \<and> \<not> head_fault (tl (tl (faults w))))"
  using assms by (auto simp: swap_eq Let_def issued_def is_ok_def update_ok_def split: if_splits)

lemma swap_content_kept:
  assumes "updateExistingUploadWithSvgContent tok uid c f e w = (r, w')"
    and "\<not> update_ok w uid"
    and "map_of (upload_table w) u \<noteq> None"
  shows "map_of (upload_table w') u = map_of (upload_table w) u"
    and "resolved_content w' u = resolved_content w u"
proof -
  from assms(3) have ne: "u \<noteq> temp_id w" using temp_id_fresh[of w] by auto
  show tbl: "map_of (upload_table w') u = map_of (upload_table w) u"
    using assms(1,2) ne
    by (auto simp: swap_eq Let_def update_ok_def delete_conv' split: if_splits)
  obtain p where p: "map_of (upload_table w) u = Some p" using assms(3) by auto
  have "p \<noteq> temp_path w (f @ ''.svg'')" using p temp_path_unused[of w u] by auto
  moreover have "file_table w' = file_table w \<or> file_table w' = (temp_path w (f @ ''.svg''), c) # file_table w"
    using assms(1) by (auto simp: swap_eq Let_def split: if_splits)
  ultimately show "resolved_content w' u = resolved_content w u"
    using tbl p by (auto simp: resolved_content_def)
qed

lemma swap_content_new:
  assumes "updateExistingUploadWithSvgContent tok uid c f e w = (r, w')"
    and "\<not> head_fault (faults w)" and "update_ok w uid"
    and "map_of (upload_table w) uid \<noteq> None"
  shows "map_of (upload_table w') uid = Some (temp_path w (f @ ''.svg''))"
    and "resolved_content w' uid = Some c"
proof -
  from assms(4) have ne: "uid \<noteq> temp_id w" using temp_id_fresh[of w] by auto
  show tbl: "map_of (upload_table w') uid = Some (temp_path w (f @ ''.svg''))"
    using assms(1,2,3) ne
    by (auto simp: swap_eq Let_def update_ok_def delete_conv' update_conv' split: if_splits)
  have "file_table w' = (temp_path w (f @ ''.svg''), c) # file_table w"
    using assms(1,2) by (auto simp: swap_eq Let_def split: if_splits)
  then show "resolved_content w' uid = Some c"
    using tbl by (simp add: resolved_content_def)
qed

lemma swap_temp_gone:
  assumes "updateExistingUploadWithSvgContent tok uid c f e w = (Inr (), w')"
    and "map_of (upload_table w) uid \<noteq> None"
  shows "map_of (upload_table w') (temp_id w) = None"
  using assms temp_id_fresh[of w]
  by (auto simp: swap_eq Let_def delete_conv' update_conv' split: if_splits)

section \<open>The sync, path by path\<close>

lemma load_current_eq:
  "load_current rid m u n t w =
     (if head_fault (faults w)
      then (Inl (RequestFailed (ItemsFind rid)), after_find w rid False)
      else (case map_of (item_table w) rid of
              None \<Rightarrow> (Inl (NotFound (ItemsFind rid)), after_find w rid False)
            | Some it \<Rightarrow> (Inr (merge_current it m u n t), after_find w rid True)))"
  by (simp add: load_current_def items_find_def request_def is_ok_def io_defs after_find_def
      split: option.splits)

lemma merge_current_Some:
  assumes "merge_current it m u n t = Some (u', n', t')"
  shows "t' = m" and "t' = (if truthy t then t else item_type_rel it)"
    and "u' = (if truthy u then u
               else (case upload_id_of (map_of (case item_attributes it of Some a \<Rightarrow> a | None \<Rightarrow> item_fields it) ''media_upload'') of
                       Some s \<Rightarrow> Some s | None \<Rightarrow> u))"
  using assms by (auto simp: merge_current_def Let_def split: if_splits)

lemma sync_eq:
  "syncMediaOnItemUpsert isSvg p tok env m w =
     (if \<not> truthy tok \<or> \<not> truthy m \<or> event_svg_content p = [] \<or> \<not> isSvg (event_svg_content p)
      then (Inr (), w)
      else if truthy (data_id p)
      then (case load_current (case data_id p of Some r \<Rightarrow> r | None \<Rightarrow> []) m (event_upload_id p) (event_name p) (data_item_type_id p) w of
              (Inl e, w1) \<Rightarrow>
                (Inr (), w1\<lparr>console := console w1 @
                   [(''[Everything SVG] Auto-sync media: failed to load current record'', e)]\<rparr>)
            | (Inr None, w1) \<Rightarrow> (Inr (), w1)
            | (Inr (Some (u, nm, t)), w1) \<Rightarrow> swap_step p tok env m u nm t w1)
      else swap_step p tok env m (event_upload_id p) (event_name p) (data_item_type_id p) w)"
proof (cases "\<not> truthy tok \<or> \<not> truthy m \<or> event_svg_content p = [] \<or> \<not> isSvg (event_svg_content p)")
  case True
  then show ?thesis
    unfolding syncMediaOnItemUpsert_def Let_def event_attrs_def event_svg_content_def
    by (auto simp: return_def)
next
  case False
  note guards = False
  show ?thesis
  proof (cases "data_id p")
    case None
    with guards show ?thesis
      unfolding syncMediaOnItemUpsert_def Let_def event_attrs_def event_svg_content_def event_upload_id_def event_name_def logged_def swap_step_def
      by (simp add: io_defs truthy_def split: option.splits prod.splits sum.splits)
  next
    case (Some rid)
    show ?thesis
    proof (cases "rid = []")
      case True
      with Some guards show ?thesis
        unfolding syncMediaOnItemUpsert_def Let_def event_attrs_def event_svg_content_def event_upload_id_def event_name_def logged_def swap_step_def
        by (simp add: io_defs truthy_def split: option.splits prod.splits sum.splits)
    next
      case False
      obtain r w1 where run: "load_current rid m (event_upload_id p) (event_name p) (data_item_type_id p) w = (r, w1)"
        by (cases "load_current rid m (event_upload_id p) (event_name p) (data_item_type_id p) w") auto
      show ?thesis
      proof (cases r)
        case (Inl e)
        with run False Some guards show ?thesis
          unfolding syncMediaOnItemUpsert_def Let_def event_attrs_def event_svg_content_def event_upload_id_def event_name_def
          by (simp add: io_defs truthy_def)
      next
        case (Inr x)
        show ?thesis
        proof (cases x)
          case None
          with Inr run False Some guards show ?thesis
            unfolding syncMediaOnItemUpsert_def Let_def event_attrs_def event_svg_content_def event_upload_id_def event_name_def
            by (simp add: io_defs truthy_def)
        next
          case (Some res)
          obtain u nm t where res: "res = (u, nm, t)" by (cases res) auto
          from res Some Inr run False \<open>data_id p = Some rid\<close> guards show ?thesis
            unfolding syncMediaOnItemUpsert_def Let_def event_attrs_def event_svg_content_def event_upload_id_def event_name_def logged_def swap_step_def
            by (simp add: io_defs truthy_def split: option.splits prod.splits sum.splits)
        qed
      qed
    qed
  qed
qed

lemma sync_cases:
  assumes run: "syncMediaOnItemUpsert isSvg p tok env m w = (r, w')"
  obtains
    (early) "r = Inr ()" "w' = w"
      "\<not> sync_ready isSvg p tok m
       \<or> (\<not> truthy (data_id p) \<and> (\<not> truthy (event_upload_id p) \<or> data_item_type_id p \<noteq> m))"
  | (fetch_failed) rid e where "r = Inr ()" "sync_ready isSvg p tok m"
      "data_id p = Some rid" "rid \<noteq> []"
      "head_fault (faults w) \<or> map_of (item_table w) rid = None"
      "w' = (after_find w rid False)\<lparr>console := console w @
              [(''[Everything SVG] Auto-sync media: failed to load current record'', e)]\<rparr>"
  | (fetch_skip) rid it where "r = Inr ()" "sync_ready isSvg p tok m"
      "data_id p = Some rid" "rid \<noteq> []" "map_of (item_table w) rid = Some it"
      "w' = after_find w rid True"
      "merge_current it m (event_upload_id p) (event_name p) (data_item_type_id p) = None
       \<or> (\<exists>u nm. merge_current it m (event_upload_id p) (event_name p) (data_item_type_id p) = Some (u, nm, m) \<and> \<not> truthy u)"
  | (swap_new) uid r2 w2 tk nm where "r = Inr ()" "sync_ready isSvg p tok m"
      "\<not> truthy (data_id p)" "event_upload_id p = Some uid" "uid \<noteq> []" "data_item_type_id p = m"
      "updateExistingUploadWithSvgContent tk uid (event_svg_content p) nm env w = (r2, w2)"
      "(r, w') = logged ''[Everything SVG] Auto-sync media on save failed:'' (r2, w2)"
  | (swap_existing) rid it uid nm0 r2 w2 tk nm where "r = Inr ()" "sync_ready isSvg p tok m"
      "data_id p = Some rid" "rid \<noteq> []" "map_of (item_table w) rid = Some it"
      "merge_current it m (event_upload_id p) (event_name p) (data_item_type_id p) = Some (Some uid, nm0, m)"
      "uid \<noteq> []"
      "updateExistingUploadWithSvgContent tk uid (event_svg_content p) nm env (after_find w rid True) = (r2, w2)"
      "(r, w') = logged ''[Everything SVG] Auto-sync media on save failed:'' (r2, w2)"
proof (cases "sync_ready isSvg p tok m")
  case False
  with run have "r = Inr ()" "w' = w" by (auto simp: sync_eq sync_ready_def)
  with False early show ?thesis by blast
next
  case True
  note ready = True
  show ?thesis
  proof (cases "truthy (data_id p)")
    case False
    with run ready have step: "swap_step p tok env m (event_upload_id p) (event_name p) (data_item_type_id p) w = (r, w')"
      by (auto simp: sync_eq sync_ready_def)
    show ?thesis
    proof (cases "\<not> truthy (event_upload_id p) \<or> data_item_type_id p \<noteq> m")
      case True
      with step have "r = Inr ()" "w' = w" by (auto simp: swap_step_def)
      with True False early show ?thesis by blast
    next
      case nskip: False
      then obtain uid where uid: "event_upload_id p = Some uid" "uid \<noteq> []"
        by (auto simp: truthy_def split: option.splits)
      obtain r2 w2 where sw: "updateExistingUploadWithSvgContent (case tok of Some t \<Rightarrow> t | None \<Rightarrow> []) uid (event_svg_content p)
                (if event_name p = [] then ''untitled'' else event_name p) env w = (r2, w2)"
        by (cases "updateExistingUploadWithSvgContent (case tok of Some t \<Rightarrow> t | None \<Rightarrow> []) uid (event_svg_content p)
                (if event_name p = [] then ''untitled'' else event_name p) env w") auto
      from step nskip uid sw have lg: "(r, w') = logged ''[Everything SVG] Auto-sync media on save failed:'' (r2, w2)"
        by (simp add: swap_step_def)
      then have "r = Inr ()" by (auto simp: logged_def split: sum.splits)
      with swap_new[OF _ ready False uid(1) uid(2) _ sw lg] nskip show ?thesis by blast
    qed
  next
    case True
    then obtain rid where rid: "data_id p = Some rid" "rid \<noteq> []"
      by (auto simp: truthy_def split: option.splits)
    show ?thesis
    proof (cases "head_fault (faults w) \<or> map_of (item_table w) rid = None")
      case True
      with run ready rid \<open>truthy (data_id p)\<close> obtain e where "r = Inr ()"
         "w' = (after_find w rid False)\<lparr>console := console w @
              [(''[Everything SVG] Auto-sync media: failed to load current record'', e)]\<rparr>"
        by (auto simp: sync_eq sync_ready_def load_current_eq after_find_def split: if_splits)
      with fetch_failed[OF _ ready rid True] show ?thesis by blast
    next
      case False
      then obtain it where it: "map_of (item_table w) rid = Some it" and nf: "\<not> head_fault (faults w)" by auto
      show ?thesis
      proof (cases "merge_current it m (event_upload_id p) (event_name p) (data_item_type_id p)")
        case None
        with run ready rid \<open>truthy (data_id p)\<close> it nf have "r = Inr ()" "w' = after_find w rid True"
          by (auto simp: sync_eq sync_ready_def load_current_eq)
        with fetch_skip[OF _ ready rid it] None show ?thesis by blast
      next
        case (Some res)
        obtain u nm0 t where res: "res = (u, nm0, t)" by (cases res) auto
        with Some have mc: "merge_current it m (event_upload_id p) (event_name p) (data_item_type_id p) = Some (u, nm0, t)" by simp
        from merge_current_Some(1)[OF mc] have t: "t = m" .
        from run ready rid \<open>truthy (data_id p)\<close> it nf mc
        have step: "swap_step p tok env m u nm0 m (after_find w rid True) = (r, w')"
          by (auto simp: sync_eq sync_ready_def load_current_eq t)
        show ?thesis
        proof (cases "truthy u")
          case False
          with step have "r = Inr ()" "w' = after_find w rid True" by (auto simp: swap_step_def)
          with fetch_skip[OF _ ready rid it] mc t False show ?thesis by blast
        next
          case True
          then obtain uid where uid: "u = Some uid" "uid \<noteq> []"
            by (auto simp: truthy_def split: option.splits)
          obtain r2 w2 where sw: "updateExistingUploadWithSvgContent (case tok of Some t \<Rightarrow> t | None \<Rightarrow> []) uid (event_svg_content p)
                (if nm0 = [] then ''untitled'' else nm0) env (after_find w rid True) = (r2, w2)"
            by (cases "updateExistingUploadWithSvgContent (case tok of Some t \<Rightarrow> t | None \<Rightarrow> []) uid (event_svg_content p)
                (if nm0 = [] then ''untitled'' else nm0) env (after_find w rid True)") auto
          from step True uid sw have lg: "(r, w') = logged ''[Everything SVG] Auto-sync media on save failed:'' (r2, w2)"
            by (simp add: swap_step_def)
          then have "r = Inr ()" by (auto simp: logged_def split: sum.splits)
          with swap_existing[OF _ ready rid it _ uid(2) sw lg] mc t uid show ?thesis by blast
        qed
      qed
    qed
  qed
qed

lemma issued_self [simp]: "issued w w = []"
  by (simp add: issued_def)

lemma issued_append: "calls w' = calls w @ xs \<Longrightarrow> issued w w' = xs"
  by (simp add: issued_def)

lemma issued_after_find:
  assumes "calls w2 = calls (after_find w rid ok) @ issued (after_find w rid ok) w2"
  shows "issued w w2 = (ItemsFind rid, ok) # issued (after_find w rid ok) w2"
proof -
  have "calls w2 = calls w @ ((ItemsFind rid, ok) # issued (after_find w rid ok) w2)"
    using assms by (simp add: after_find_def)
  then show ?thesis by (rule issued_append)
qed

lemma after_find_fields [simp]:
  "upload_table (after_find w rid ok) = upload_table w"
  "file_table (after_find w rid ok) = file_table w"
  "console (after_find w rid ok) = console w"
  "calls (after_find w rid ok) = calls w @ [(ItemsFind rid, ok)]"
  "faults (after_find w rid ok) = tl (faults w)"
  "temp_id (after_find w rid ok) = temp_id w"
  "temp_path (after_find w rid ok) f = temp_path w f"
  "resolved_content (after_find w rid ok) u = resolved_content w u"
  by (simp_all add: after_find_def temp_id_def temp_path_def resolved_content_def split: option.splits)

lemma logged_fields:
  assumes "(r, w') = logged msg (r2, w2)"
  shows "r = Inr ()" "upload_table w' = upload_table w2" "file_table w' = file_table w2"
    "calls w' = calls w2" "resolved_content w' u = resolved_content w2 u"
    "console w' = (case r2 of Inl e \<Rightarrow> console w2 @ [(msg, e)] | Inr u \<Rightarrow> console w2)"
  using assms by (auto simp: logged_def resolved_content_def split: sum.splits option.splits)

lemma merged_upload_id:
  assumes "merge_current it m (event_upload_id p) n (data_item_type_id p) = Some (u, nm, t)"
    and "data_id p = Some rid" "rid \<noteq> []" "map_of (item_table w) rid = Some it"
  shows "truthy u \<Longrightarrow> resolved_upload_id w p = u"
    and "\<not> truthy u \<Longrightarrow> \<not> truthy (resolved_upload_id w p)"
    and "resolved_item_type w p = m"
  using merge_current_Some[OF assms(1)] assms(2-)
  by (auto simp: resolved_upload_id_def resolved_item_type_def current_upload_id_def current_item_type_def current_item_def
      truthy_def split: option.splits if_splits)

lemma sync_result: "fst (syncMediaOnItemUpsert isSvg payload tok env m w) = Inr ()"
proof -
  obtain r w' where run: "syncMediaOnItemUpsert isSvg payload tok env m w = (r, w')"
    by (cases "syncMediaOnItemUpsert isSvg payload tok env m w") auto
  then have "r = Inr ()" by (cases rule: sync_cases) auto
  with run show ?thesis by simp
qed

lemma sync_logs_failure:
  assumes run: "syncMediaOnItemUpsert isSvg payload tok env m w = (r, w')"
    and failed: "(c, False) \<in> set (issued w w')"
  shows "\<exists>entry. console w' = console w @ [entry]"
  using run
proof (cases rule: sync_cases)
  case early
  with failed show ?thesis by simp
next
  case (fetch_failed rid e)
  then show ?thesis by (simp add: after_find_def)
next
  case (fetch_skip rid it)
  with failed show ?thesis by (simp add: issued_def after_find_def)
next
  case (swap_new uid r2 w2 tk nm)
  note sw = swap_new(7) and lg = logged_fields[OF swap_new(8)]
  from swap_trace(1)[OF sw] lg(4) have "issued w w' = issued w w2" by (simp add: issued_def)
  with failed swap_trace(2,3)[OF sw] have "\<not> is_ok r2" by (auto split: if_splits)
  then obtain e where "r2 = Inl e" by (cases r2) (auto simp: is_ok_def)
  with lg(6) swap_frame(1)[OF sw] show ?thesis by simp
next
  case (swap_existing rid it uid nm0 r2 w2 tk nm)
  note sw = swap_existing(8) and lg = logged_fields[OF swap_existing(9)]
  from issued_after_find[OF swap_trace(1)[OF sw]] lg(4)
  have "issued w w' = (ItemsFind rid, True) # issued (after_find w rid True) w2"
    by (simp add: issued_def)
  with failed swap_trace(2,3)[OF sw] have "\<not> is_ok r2" by (auto split: if_splits)
  then obtain e where "r2 = Inl e" by (cases r2) (auto simp: is_ok_def)
  with lg(6) swap_frame(1)[OF sw] show ?thesis by simp
qed

lemma swap_update_call:
  assumes sw: "updateExistingUploadWithSvgContent tk uid c nm env w1 = (r2, w2)"
    and mem: "(UploadsUpdate i pth, ok) \<in> set (issued w1 w2)"
  shows "i = uid" and "ok = update_ok w1 uid" and "\<not> head_fault (faults w1)"
    and "\<forall>t ok'. (UploadsDestroy t, ok') \<in> set (issued w1 w2) \<longrightarrow> t = temp_id w1"
  using swap_trace(2)[OF sw] mem by (auto split: if_splits)

lemma swap_existing_after_update:
  assumes sw: "updateExistingUploadWithSvgContent tk uid c nm env w1 = (r2, w2)"
    and mem: "(UploadsUpdate i pth, ok) \<in> set (issued w1 w2)"
    and ex: "map_of (upload_table w1) i \<noteq> None"
  shows "i \<noteq> temp_id w1" and "ok \<Longrightarrow> map_of (upload_table w2) i \<noteq> None"
    and "ok \<Longrightarrow> resolved_content w2 i = Some c"
proof -
  note uc = swap_update_call[OF sw mem]
  show "i \<noteq> temp_id w1" using ex temp_id_fresh[of w1] by auto
  assume ok
  with uc have "update_ok w1 uid" by simp
  from swap_content_new[OF sw uc(3) this] ex uc(1)
  show "map_of (upload_table w2) i \<noteq> None" "resolved_content w2 i = Some c" by auto
qed

lemma sync_update_target:
  assumes run: "syncMediaOnItemUpsert isSvg payload apiToken env modelId w = (r, w')"
    and upd: "(UploadsUpdate i pth, ok) \<in> set (issued w w')"
  shows "resolved_upload_id w payload = Some i \<and>
         (map_of (upload_table w) i \<noteq> None \<longrightarrow>
            (\<forall>t ok'. (UploadsDestroy t, ok') \<in> set (issued w w') \<longrightarrow> t \<noteq> i) \<and>
            (ok \<longrightarrow> map_of (upload_table w') i \<noteq> None \<and>
                   resolved_content w' i = Some (event_svg_content payload)))"
  using run
proof (cases rule: sync_cases)
  case early
  with upd show ?thesis by simp
next
  case (fetch_failed rid e)
  with upd show ?thesis by (simp add: issued_def after_find_def)
next
  case (fetch_skip rid it)
  with upd show ?thesis by (simp add: issued_def after_find_def)
next
  case (swap_new uid r2 w2 tk nm)
  note sw = swap_new(7) and lg = logged_fields[OF swap_new(8)]
  from swap_trace(1)[OF sw] lg(4) have iss: "issued w w' = issued w w2" by (simp add: issued_def)
  with upd have mem: "(UploadsUpdate i pth, ok) \<in> set (issued w w2)" by simp
  note uc = swap_update_call[OF sw mem]
  have res: "resolved_upload_id w payload = Some i"
    using swap_new(4,5) uc(1) by (simp add: resolved_upload_id_def truthy_def)
  show ?thesis
    using res iss uc(4) swap_existing_after_update[OF sw mem] lg(2) lg(5)[of i]
    by auto
next
  case (swap_existing rid it uid nm0 r2 w2 tk nm)
  note sw = swap_existing(8) and lg = logged_fields[OF swap_existing(9)]
  let ?w1 = "after_find w rid True"
  from issued_after_find[OF swap_trace(1)[OF sw]] lg(4)
  have iss: "issued w w' = (ItemsFind rid, True) # issued ?w1 w2"
    by (simp add: issued_def)
  with upd have mem: "(UploadsUpdate i pth, ok) \<in> set (issued ?w1 w2)" by simp
  note uc = swap_update_call[OF sw mem]
  have "truthy (Some uid)" using swap_existing(7) by (simp add: truthy_def)
  from merged_upload_id(1)[OF swap_existing(6,3,4,5) this] uc(1)
  have res: "resolved_upload_id w payload = Some i" by simp
  show ?thesis
    using res iss uc(4) swap_existing_after_update[OF sw mem] lg(2) lg(5)[of i]
    by auto
qed

lemma merge_current_None:
  assumes "merge_current it m u n t = None"
  shows "(if truthy t then t else item_type_rel it) \<noteq> m"
  using assms by (auto simp: merge_current_def Let_def split: if_splits)

lemma swap_update_issued:
  assumes sw: "updateExistingUploadWithSvgContent tk uid c nm env w1 = (r2, w2)"
    and nf: "faults w1 = []" and ex: "map_of (upload_table w1) uid \<noteq> None"
  shows "(UploadsUpdate uid (temp_path w1 (nm @ ''.svg'')), True) \<in> set (issued w1 w2)"
  using swap_trace(2)[OF sw] nf ex by (simp add: head_fault_def update_ok_def)

lemma sync_progress:
  assumes run: "syncMediaOnItemUpsert isSvg payload apiToken env modelId w = (r, w')"
    and ready: "sync_ready isSvg payload apiToken modelId"
    and ty: "resolved_item_type w payload = modelId"
    and up: "resolved_upload_id w payload = Some aid" and ne: "aid \<noteq> []"
    and ex: "map_of (upload_table w) aid \<noteq> None"
    and fetchable: "truthy (data_id payload) \<longrightarrow> current_item w payload \<noteq> None"
    and nf: "faults w = []"
  shows "\<exists>pth. (UploadsUpdate aid pth, True) \<in> set (issued w w')"
  using run
proof (cases rule: sync_cases)
  case early
  with ready have nid: "\<not> truthy (data_id payload)"
    and bad: "\<not> truthy (event_upload_id payload) \<or> data_item_type_id payload \<noteq> modelId"
    by auto
  from nid have "current_item w payload = None"
    by (auto simp: current_item_def truthy_def split: option.splits)
  then have cu: "current_upload_id w payload = None" "current_item_type w payload = None"
    by (simp_all add: current_upload_id_def current_item_type_def)
  from up cu(1) have "truthy (event_upload_id payload)"
    by (auto simp: resolved_upload_id_def split: if_splits)
  moreover from ty cu(2) ready have "data_item_type_id payload = modelId"
    by (auto simp: resolved_item_type_def sync_ready_def truthy_def split: if_splits)
  ultimately show ?thesis using bad by simp
next
  case (fetch_failed rid e)
  from fetch_failed(3,4) have "truthy (data_id payload)" by (simp add: truthy_def)
  with fetchable fetch_failed(3,4) have "map_of (item_table w) rid \<noteq> None"
    by (simp add: current_item_def)
  with fetch_failed(5) nf show ?thesis by (simp add: head_fault_def)
next
  case (fetch_skip rid it)
  from fetch_skip(3,4,5) have ci: "current_item w payload = Some it" by (simp add: current_item_def)
  from fetch_skip(7) show ?thesis
  proof
    assume "merge_current it modelId (event_upload_id payload) (event_name payload) (data_item_type_id payload) = None"
    from merge_current_None[OF this] ty ci show ?thesis
      by (simp add: resolved_item_type_def current_item_type_def split: if_splits)
  next
    assume "\<exists>u nm. merge_current it modelId (event_upload_id payload) (event_name payload) (data_item_type_id payload) = Some (u, nm, modelId) \<and> \<not> truthy u"
    then obtain u nm where mc: "merge_current it modelId (event_upload_id payload) (event_name payload) (data_item_type_id payload) = Some (u, nm, modelId)"
      and nt: "\<not> truthy u" by blast
    from merged_upload_id(2)[OF mc fetch_skip(3,4,5) nt] up ne show ?thesis by (simp add: truthy_def)
  qed
next
  case (swap_new uid r2 w2 tk nm)
  note sw = swap_new(7) and lg = logged_fields[OF swap_new(8)]
  from swap_trace(1)[OF sw] lg(4) have iss: "issued w w' = issued w w2" by (simp add: issued_def)
  from swap_new(4,5) up have "uid = aid" by (simp add: resolved_upload_id_def truthy_def)
  with swap_update_issued[OF sw nf] ex iss show ?thesis by auto
next
  case (swap_existing rid it uid nm0 r2 w2 tk nm)
  note sw = swap_existing(8) and lg = logged_fields[OF swap_existing(9)]
  let ?w1 = "after_find w rid True"
  from issued_after_find[OF swap_trace(1)[OF sw]] lg(4)
  have iss: "issued w w' = (ItemsFind rid, True) # issued ?w1 w2"
    by (simp add: issued_def)
  have "truthy (Some uid)" using swap_existing(7) by (simp add: truthy_def)
  from merged_upload_id(1)[OF swap_existing(6,3,4,5) this] up have "uid = aid" by simp
  moreover have "faults ?w1 = []" using nf by simp
  moreover have "map_of (upload_table ?w1) aid \<noteq> None" using ex by simp
  ultimately show ?thesis using swap_update_issued[OF sw] iss by auto
qed

section \<open>The migration loop\<close>

lemma migrate_entry_eq:
  "migrate_entry m svg acc w =
     (if head_fault (faults w)
      then (Inr acc,
            w\<lparr>faults := tl (faults w),
              calls := calls w @ [(ItemsCreate m (recordData svg), False)],
              console := console w @
                [(''Error migrating SVG '' @ entry_label svg @ '':'',
                  RequestFailed (ItemsCreate m (recordData svg)))]\<rparr>)
      else (Inr (acc @ [new_item w m (recordData svg)]),
            w\<lparr>faults := tl (faults w),
              item_table := (item_id (new_item w m (recordData svg)), new_item w m (recordData svg)) # item_table w,
              calls := calls w @ [(ItemsCreate m (recordData svg), True)]\<rparr>))"
  by (simp add: migrate_entry_def items_create_def request_def is_ok_def io_defs Let_def new_item_def)

lemma migrate_entry_step:
  assumes "migrate_entry m svg acc w = (r, w1)"
  shows "calls w1 = calls w @ [(ItemsCreate m (recordData svg), \<not> head_fault (faults w))]"
    and "r = Inr (acc @ (if head_fault (faults w) then [] else [new_item w m (recordData svg)]))"
    and "length (console w1) = length (console w) + (if head_fault (faults w) then 1 else 0)"
    and "upload_table w1 = upload_table w" and "file_table w1 = file_table w"
    and "parameters w1 = parameters w"
  using assms by (auto simp: migrate_entry_eq split: if_splits)

lemma migrate_loop_run:
  assumes "migrate_loop m entries acc w = (r, w')"
  shows "\<exists>tr recs. run_summary m entries acc w r w' tr recs"
  using assms
proof (induction entries arbitrary: acc w)
  case Nil
  then have "run_summary m [] acc w r w' [] []"
    by (simp add: run_summary_def migrated_entries_def)
  then show ?case by blast
next
  case (Cons svg rest)
  obtain r1 w1 where step: "migrate_entry m svg acc w = (r1, w1)"
    by (cases "migrate_entry m svg acc w") auto
  note s1 = migrate_entry_step[OF step]
  let ?ok = "\<not> head_fault (faults w)"
  let ?recs1 = "if head_fault (faults w) then [] else [new_item w m (recordData svg)]"
  from Cons.prems step s1(2) have rest: "migrate_loop m rest (acc @ ?recs1) w1 = (r, w')" by simp
  from Cons.IH[OF rest] obtain tr recs where
    s2: "run_summary m rest (acc @ ?recs1) w1 r w' tr recs" by blast
  let ?tr = "(ItemsCreate m (recordData svg), ?ok) # tr"
  have fields: "map item_fields ?recs1 = (if ?ok then [recordData svg] else [])"
    by (simp add: new_item_def)
  have "run_summary m (svg # rest) acc w r w' ?tr (?recs1 @ recs)"
    unfolding run_summary_def
  proof (intro conjI)
    show "calls w' = calls w @ ?tr" using s1(1) s2 by (simp add: run_summary_def)
    show "r = Inr (acc @ ?recs1 @ recs)" using s2 by (simp add: run_summary_def)
    show "map fst ?tr = map (\<lambda>e. ItemsCreate m (recordData e)) (svg # rest)"
      using s2 by (simp add: run_summary_def)
    show "map item_fields (?recs1 @ recs) = map recordData (migrated_entries (svg # rest) ?tr)"
      using s2 fields by (simp add: run_summary_def migrated_entries_def)
    show "length (console w') = length (console w) + length (filter (\<lambda>x. \<not> snd x) ?tr)"
      using s1(3) s2 by (simp add: run_summary_def)
    show "upload_table w' = upload_table w" using s1(4) s2 by (simp add: run_summary_def)
    show "file_table w' = file_table w" using s1(5) s2 by (simp add: run_summary_def)
    show "parameters w' = parameters w" using s1(6) s2 by (simp add: run_summary_def)
  qed
  then show ?case by blast
qed

lemma migrated_entries_Cons:
  "migrated_entries (e # es) (x # tr) = (if snd x then [e] else []) @ migrated_entries es tr"
  by (simp add: migrated_entries_def)

lemma succeeded_request_migrated:
  assumes "map fst tr = map f entries" and "(f e, True) \<in> set tr"
  shows "f e \<in> set (map f (migrated_entries entries tr))"
  using assms
proof (induction entries arbitrary: tr)
  case Nil
  then show ?case by simp
next
  case (Cons a es)
  then obtain x tr' where tr: "tr = x # tr'" by (cases tr) auto
  with Cons.prems have hd: "fst x = f a" and tl: "map fst tr' = map f es" by auto
  show ?case
  proof (cases "x = (f e, True)")
    case True
    with hd have "f a = f e" by simp
    with True tr show ?thesis by (simp add: migrated_entries_Cons)
  next
    case False
    with Cons.prems(2) tr have "(f e, True) \<in> set tr'" by auto
    from Cons.IH[OF tl this] tr show ?thesis by (simp add: migrated_entries_Cons)
  qed
qed

lemma recordData_reference:
  assumes "svg_type e = Image" "imageId e = Some aid" "aid \<noteq> []"
  shows "upload_id_of (map_of (recordData e) ''media_upload'') = Some aid"
  using assms by (simp add: recordData_def truthy_def)

section \<open>The bootstrap\<close>

lemma checkIfModelExists_eq:
  "checkIfModelExists tok w =
     (if head_fault (faults w)
      then (Inr None,
            w\<lparr>faults := tl (faults w), calls := calls w @ [(ItemTypesList, False)],
              console := console w @ [(''Error checking for SVG model:'', RequestFailed ItemTypesList)]\<rparr>)
      else (Inr (found_model_id w),
            w\<lparr>faults := tl (faults w), calls := calls w @ [(ItemTypesList, True)]\<rparr>))"
  by (simp add: checkIfModelExists_def itemTypes_list_def request_def is_ok_def io_defs found_model_id_def)

lemma onBoot_eq:
  "onBoot ctx w =
     (if isSetupComplete (plugin_parameters ctx) then (Inr (), w)
      else if head_fault (faults w)
      then (Inr (),
            w\<lparr>faults := tl (faults w), calls := calls w @ [(ItemTypesList, False)],
              console := console w @ [(''Error checking for SVG model:'', RequestFailed ItemTypesList)]\<rparr>)
      else if \<not> truthy (found_model_id w)
      then (Inr (), w\<lparr>faults := tl (faults w), calls := calls w @ [(ItemTypesList, True)]\<rparr>)
      else (let p' = (plugin_parameters ctx)\<lparr>svgModelId := found_model_id w, isSetupComplete := True\<rparr>
            in if head_fault (tl (faults w))
               then (Inl (RequestFailed (UpdatePluginParameters p')),
                     w\<lparr>faults := tl (tl (faults w)),
                       calls := calls w @ [(ItemTypesList, True), (UpdatePluginParameters p', False)]\<rparr>)
               else (Inr (),
                     w\<lparr>faults := tl (tl (faults w)), parameters := p',
                       calls := calls w @ [(ItemTypesList, True), (UpdatePluginParameters p', True)]\<rparr>)))"
  by (simp add: onBoot_def checkIfModelExists_eq updatePluginParameters_def request_def is_ok_def
      io_defs Let_def truthy_def)

lemma grows_refl: "grows w w" by (simp add: grows_def)

lemma grows_trans: "grows a b \<Longrightarrow> grows b c \<Longrightarrow> grows a c" by (auto simp: grows_def)

lemma request_grows:
  assumes "\<forall>v. calls (snd (eff v)) = calls v"
  shows "grows w (snd (request c eff w))"
proof (cases "head_fault (faults w)")
  case True
  then have "calls (snd (request c eff w)) = calls w @ [(c, False)]" by (simp add: request_def)
  then show ?thesis unfolding grows_def by blast
next
  case False
  obtain r v' where e: "eff (w\<lparr>faults := tl (faults w)\<rparr>) = (r, v')"
    by (cases "eff (w\<lparr>faults := tl (faults w)\<rparr>)") auto
  from assms have "calls (snd (eff (w\<lparr>faults := tl (faults w)\<rparr>))) = calls (w\<lparr>faults := tl (faults w)\<rparr>)"
    by blast
  with e have "calls v' = calls w" by simp
  with False e have "calls (snd (request c eff w)) = calls w @ [(c, is_ok r)]"
    by (simp add: request_def)
  then show ?thesis unfolding grows_def by blast
qed

lemma bind_grows:
  assumes "\<And>v. grows v (snd (m v))" "\<And>x v. grows v (snd (f x v))"
  shows "grows w (snd (io_bind m f w))"
proof (cases "m w")
  case (Pair r w1)
  with assms(1)[of w] have g: "grows w w1" by simp
  show ?thesis
  proof (cases r)
    case (Inl e) with Pair g show ?thesis by (simp add: io_bind_def)
  next
    case (Inr x)
    with Pair have "snd (io_bind m f w) = snd (f x w1)" by (simp add: io_bind_def)
    with grows_trans[OF g assms(2)[of w1 x]] show ?thesis by simp
  qed
qed

lemma fields_create_grows: "grows v (snd (fields_create m k v))"
  unfolding fields_create_def by (rule request_grows) (auto split: if_splits)

lemma fields_list_grows: "grows v (snd (fields_list m v))"
  unfolding fields_list_def by (rule request_grows) (auto split: option.splits)

lemma itemTypes_update_grows: "grows v (snd (itemTypes_update m t v))"
  unfolding itemTypes_update_def by (rule request_grows) (auto split: if_splits)

lemma return_grows: "grows v (snd (return x v))" by (simp add: return_def grows_def)

lemma provision_rest_grows:
  "grows v (snd (io_bind (fields_create i ''name'')
               (\<lambda>u. io_bind (fields_create i ''svg_content'')
                  (\<lambda>u. io_bind (fields_create i ''svg_type'')
                     (\<lambda>u. io_bind (fields_create i ''media_upload'')
                        (\<lambda>u. io_bind (fields_list i)
                           (\<lambda>nameField.
                              io_bind
                                (case find (\<lambda>f. f = ''name'') nameField of
                                   None \<Rightarrow> return ()
                                 | Some nameFieldId \<Rightarrow>
                                     if nameFieldId = [] then return ()
                                     else itemTypes_update i nameFieldId)
                                (\<lambda>u. return itemType)))))) v))"
  by (intro bind_grows fields_create_grows fields_list_grows return_grows)
     (auto intro: return_grows itemTypes_update_grows split: option.splits)

lemma createSvgModel_first_call:
  "\<exists>ok tr. issued w (snd (createSvgModel tok env w))
       = (ItemTypesCreate SVG_MODEL_NAME SVG_MODEL_API_KEY, ok) # tr"
proof (cases "head_fault (faults w)")
  case True
  then have "issued w (snd (createSvgModel tok env w))
       = (ItemTypesCreate SVG_MODEL_NAME SVG_MODEL_API_KEY, False) # []"
    by (simp add: createSvgModel_def itemTypes_create_def request_def io_defs issued_def)
  then show ?thesis by blast
next
  case False
  let ?it = "\<lparr>it_id = fresh_key (map it_id (item_type_table w)), it_api_key = SVG_MODEL_API_KEY,
                       it_name = SVG_MODEL_NAME, it_field_keys = [], it_title_field = None\<rparr>"
  let ?w1 = "w\<lparr>faults := tl (faults w), item_type_table := item_type_table w @ [?it],
               calls := calls w @ [(ItemTypesCreate SVG_MODEL_NAME SVG_MODEL_API_KEY, True)]\<rparr>"
  have c: "itemTypes_create SVG_MODEL_NAME SVG_MODEL_API_KEY w = (Inr ?it, ?w1)"
    using False by (simp add: itemTypes_create_def request_def is_ok_def Let_def)
  let ?rest = "io_bind (fields_create (it_id ?it) ''name'')
               (\<lambda>u. io_bind (fields_create (it_id ?it) ''svg_content'')
                  (\<lambda>u. io_bind (fields_create (it_id ?it) ''svg_type'')
                     (\<lambda>u. io_bind (fields_create (it_id ?it) ''media_upload'')
                        (\<lambda>u. io_bind (fields_list (it_id ?it))
                           (\<lambda>nameField.
                              io_bind
                                (case find (\<lambda>f. f = ''name'') nameField of
                                   None \<Rightarrow> return ()
                                 | Some nameFieldId \<Rightarrow>
                                     if nameFieldId = [] then return ()
                                     else itemTypes_update (it_id ?it) nameFieldId)
                                (\<lambda>u. return ?it))))))"
  obtain r w2 where rest: "?rest ?w1 = (r, w2)" by (cases "?rest ?w1") auto
  from provision_rest_grows[of ?w1 "it_id ?it" ?it] rest have "grows ?w1 w2" by simp
  then obtain tr where tr: "calls w2 = calls ?w1 @ tr" by (auto simp: grows_def)
  have "calls (snd (createSvgModel tok env w)) = calls w2"
    using c rest by (cases r) (simp_all add: createSvgModel_def io_defs)
  with tr have "issued w (snd (createSvgModel tok env w))
       = (ItemTypesCreate SVG_MODEL_NAME SVG_MODEL_API_KEY, True) # tr"
    by (simp add: issued_def)
  then show ?thesis by blast
qed

section \<open>The properties\<close>

text \<open>
  Claim C1. Every content-replace request that \<^verbatim>\<open>syncMediaOnItemUpsert\<close> issues targets
  exactly the upload id it resolved (the event's, or the stored record's when the event has
  none). When that id is an upload of the Asset Store, it is never the id of the temporary
  upload (the one the run destroys); and once the replace request has succeeded, the upload
  still exists under the same id and resolves to the SVG content of the event. Moreover,
  when the event carries well-formed content, the resolved model is the managed one, the
  resolved id \<open>aid\<close> is an upload of the Asset Store, the current record of an update
  exists and no request is rejected, the replace request on \<open>aid\<close> is issued and succeeds,
  and \<open>aid\<close> resolves to the new content afterwards.
\<close>

theorem sync_swaps_in_place:
  assumes run: "syncMediaOnItemUpsert isSvg payload apiToken env modelId w = (r, w')"
  shows "(\<forall>i pth ok. (UploadsUpdate i pth, ok) \<in> set (issued w w') \<longrightarrow>
            resolved_upload_id w payload = Some i \<and>
            (map_of (upload_table w) i \<noteq> None \<longrightarrow>
               (\<forall>t ok'. (UploadsDestroy t, ok') \<in> set (issued w w') \<longrightarrow> t \<noteq> i) \<and>
               (ok \<longrightarrow> map_of (upload_table w') i \<noteq> None \<and>
                      resolved_content w' i = Some (event_svg_content payload)))) \<and>
         (sync_ready isSvg payload apiToken modelId \<and> resolved_item_type w payload = modelId \<and>
          resolved_upload_id w payload = Some aid \<and> aid \<noteq> [] \<and>
          map_of (upload_table w) aid \<noteq> None \<and>
          (truthy (data_id payload) \<longrightarrow> current_item w payload \<noteq> None) \<and> faults w = []
          \<longrightarrow> (\<exists>pth. (UploadsUpdate aid pth, True) \<in> set (issued w w')) \<and>
              map_of (upload_table w') aid \<noteq> None \<and>
              resolved_content w' aid = Some (event_svg_content payload))"
proof (rule conjI)
  show "\<forall>i pth ok. (UploadsUpdate i pth, ok) \<in> set (issued w w') \<longrightarrow>
            resolved_upload_id w payload = Some i \<and>
            (map_of (upload_table w) i \<noteq> None \<longrightarrow>
               (\<forall>t ok'. (UploadsDestroy t, ok') \<in> set (issued w w') \<longrightarrow> t \<noteq> i) \<and>
               (ok \<longrightarrow> map_of (upload_table w') i \<noteq> None \<and>
                      resolved_content w' i = Some (event_svg_content payload)))"
    using sync_update_target[OF run] by blast
next
  show "sync_ready isSvg payload apiToken modelId \<and> resolved_item_type w payload = modelId \<and>
          resolved_upload_id w payload = Some aid \<and> aid \<noteq> [] \<and>
          map_of (upload_table w) aid \<noteq> None \<and>
          (truthy (data_id payload) \<longrightarrow> current_item w payload \<noteq> None) \<and> faults w = []
          \<longrightarrow> (\<exists>pth. (UploadsUpdate aid pth, True) \<in> set (issued w w')) \<and>
              map_of (upload_table w') aid \<noteq> None \<and>
              resolved_content w' aid = Some (event_svg_content payload)"
  proof (rule impI)
    assume h: "sync_ready isSvg payload apiToken modelId \<and> resolved_item_type w payload = modelId \<and>
          resolved_upload_id w payload = Some aid \<and> aid \<noteq> [] \<and>
          map_of (upload_table w) aid \<noteq> None \<and>
          (truthy (data_id payload) \<longrightarrow> current_item w payload \<noteq> None) \<and> faults w = []"
    then obtain pth where upd: "(UploadsUpdate aid pth, True) \<in> set (issued w w')"
      using sync_progress[OF run, of aid] by blast
    from sync_update_target[OF run upd] h
    have "map_of (upload_table w') aid \<noteq> None \<and> resolved_content w' aid = Some (event_svg_content payload)"
      by simp
    with upd show "(\<exists>pth. (UploadsUpdate aid pth, True) \<in> set (issued w w')) \<and>
              map_of (upload_table w') aid \<noteq> None \<and>
              resolved_content w' aid = Some (event_svg_content payload)"
      by blast
  qed
qed

theorem sync_swaps_in_place_witness:
  "sync_ready demo_isSvg demo_update (Some ''tok'') (Some ''m1'') \<and>
   resolved_item_type (demo_world []) demo_update = Some ''m1'' \<and>
   resolved_upload_id (demo_world []) demo_update = Some ''a1'' \<and>
   map_of (upload_table (demo_world [])) ''a1'' = Some ''/7/old.svg'' \<and>
   current_item (demo_world []) demo_update = Some demo_item \<and>
   faults (demo_world []) = [] \<and>
   (UploadsUpdate ''a1'' ''00000000000-logo.svg'', True)
     \<in> set (issued (demo_world []) (snd (demo_sync demo_update (demo_world [])))) \<and>
   resolved_content (snd (demo_sync demo_update (demo_world []))) ''a1'' = Some ''<svg>new</svg>''"
proof -
  have run: "syncMediaOnItemUpsert demo_isSvg demo_update (Some ''tok'') ''main'' (Some ''m1'') (demo_world [])
      = (fst (demo_sync demo_update (demo_world [])), snd (demo_sync demo_update (demo_world [])))"
    by (simp add: demo_sync_def)
  have ready: "sync_ready demo_isSvg demo_update (Some ''tok'') (Some ''m1'')" by code_simp
  have ty: "resolved_item_type (demo_world []) demo_update = Some ''m1''" by code_simp
  have up: "resolved_upload_id (demo_world []) demo_update = Some ''a1''" by code_simp
  have ex: "map_of (upload_table (demo_world [])) ''a1'' = Some ''/7/old.svg''" by code_simp
  have ci: "current_item (demo_world []) demo_update = Some demo_item" by code_simp
  have nf: "faults (demo_world []) = []" by code_simp
  have upd: "(UploadsUpdate ''a1'' ''00000000000-logo.svg'', True)
     \<in> set (issued (demo_world []) (snd (demo_sync demo_update (demo_world []))))"
    by code_simp
  have c: "event_svg_content demo_update = ''<svg>new</svg>''" by code_simp
  from sync_swaps_in_place[OF run, where aid = "''a1''"] ready ty up ex ci nf c
  have "resolved_content (snd (demo_sync demo_update (demo_world []))) ''a1'' = Some ''<svg>new</svg>''"
    by simp
  with ready ty up ex ci nf upd show ?thesis by simp
qed

text \<open>
  Claim C2. For every payload and every world, \<^verbatim>\<open>onBeforeItemUpsert\<close> resolves to
  \<^verbatim>\<open>true\<close> and \<^verbatim>\<open>syncMediaOnItemUpsert\<close> returns normally, whatever requests the
  environment rejects; and whenever one of the requests of the sync (the record fetch, the
  upload create, replace or destroy) has failed, exactly one entry has been added to the
  error console.
\<close>

theorem hook_never_blocks_commit:
  "fst (onBeforeItemUpsert isSvg payload ctx w) = Inr True \<and>
   fst (syncMediaOnItemUpsert isSvg payload apiToken env modelId w) = Inr () \<and>
   ((\<exists>c. (c, False) \<in> set (issued w (snd (syncMediaOnItemUpsert isSvg payload apiToken env modelId w))))
      \<longrightarrow> (\<exists>entry. console (snd (syncMediaOnItemUpsert isSvg payload apiToken env modelId w))
                      = console w @ [entry]))"
proof (intro conjI impI)
  show "fst (onBeforeItemUpsert isSvg payload ctx w) = Inr True"
    using sync_result[of isSvg payload "currentUserAccessToken ctx" "environment ctx"
        "svgModelId (plugin_parameters ctx)" w]
    by (auto simp: onBeforeItemUpsert_def Let_def return_def io_bind_def split: prod.splits sum.splits)
  show "fst (syncMediaOnItemUpsert isSvg payload apiToken env modelId w) = Inr ()"
    by (rule sync_result)
  assume "\<exists>c. (c, False) \<in> set (issued w (snd (syncMediaOnItemUpsert isSvg payload apiToken env modelId w)))"
  then obtain c where "(c, False) \<in> set (issued w (snd (syncMediaOnItemUpsert isSvg payload apiToken env modelId w)))" ..
  then show "\<exists>entry. console (snd (syncMediaOnItemUpsert isSvg payload apiToken env modelId w)) = console w @ [entry]"
    using sync_logs_failure[of isSvg payload apiToken env modelId w
        "fst (syncMediaOnItemUpsert isSvg payload apiToken env modelId w)"
        "snd (syncMediaOnItemUpsert isSvg payload apiToken env modelId w)" c]
    by simp
qed

theorem hook_never_blocks_commit_witness:
  "(UploadsUpdate ''a1'' ''00000000000-logo.svg'', False)
     \<in> set (issued (demo_world [False, False, True])
               (snd (demo_sync demo_update (demo_world [False, False, True])))) \<and>
   fst (onBeforeItemUpsert demo_isSvg demo_update demo_ctx (demo_world [False, False, True])) = Inr True \<and>
   fst (demo_sync demo_update (demo_world [False, False, True])) = Inr () \<and>
   length (console (snd (demo_sync demo_update (demo_world [False, False, True])))) = 1"
proof -
  have f: "(UploadsUpdate ''a1'' ''00000000000-logo.svg'', False)
     \<in> set (issued (demo_world [False, False, True])
               (snd (demo_sync demo_update (demo_world [False, False, True]))))"
    by code_simp
  have c0: "console (demo_world [False, False, True]) = []" by code_simp
  from hook_never_blocks_commit[where isSvg = demo_isSvg and payload = demo_update and ctx = demo_ctx
      and w = "demo_world [False, False, True]" and apiToken = "Some ''tok''" and env = "''main''"
      and modelId = "Some ''m1''", folded demo_sync_def] f c0
  show ?thesis by auto
qed

text \<open>
  Claim C3. The claim says that the caller of the migration removes from the legacy blob
  only the entries of the returned list, so that failed entries stay for a retry.
  \<^verbatim>\<open>handleMigration\<close> does not do so: it discards the returned list and stores
  \<^verbatim>\<open>svgs: []\<close>. With two legacy entries and the first create request rejected, only the
  second entry is migrated, yet the blob is emptied and the notice reports two migrated
  entries.
\<close>

theorem handleMigration_clears_failed_entry:
  "map item_fields
     (case fst (demo_migrate [demo_entry_A, demo_entry_B] (demo_world [True]))
      of Inl e \<Rightarrow> [] | Inr recs \<Rightarrow> recs) = [recordData demo_entry_B] \<and>
   fst (handleMigration demo_legacy_ctx ''migrate'' (demo_world [True])) = Inr () \<and>
   svgs (parameters (snd (handleMigration demo_legacy_ctx ''migrate'' (demo_world [True])))) = Some [] \<and>
   ui (snd (handleMigration demo_legacy_ctx ''migrate'' (demo_world [True])))
     = [Notice ''Successfully migrated 2 SVG(s) to records!'']"
  by code_simp

text \<open>
  Claim C4. \<^verbatim>\<open>migrateSvgsToRecords\<close> always returns a list. It issues one create request
  per entry, in input order, whichever of them fail; the returned records are exactly those
  of the entries whose request succeeded, in input order and with duplicates kept; every
  failed request adds one entry to the error console; and the empty input gives the empty
  list.
\<close>

theorem migrate_returns_successes_in_order:
  assumes "migrateSvgsToRecords apiToken modelId entries w = (r, w')"
  shows "\<exists>recs. r = Inr recs \<and>
           map fst (issued w w') = map (\<lambda>e. ItemsCreate modelId (recordData e)) entries \<and>
           map item_fields recs = map recordData (migrated_entries entries (issued w w')) \<and>
           length (console w') = length (console w) + length (filter (\<lambda>x. \<not> snd x) (issued w w')) \<and>
           (entries = [] \<longrightarrow> recs = [])"
proof -
  from migrate_loop_run[OF assms[unfolded migrateSvgsToRecords_def]] obtain tr recs where
    "run_summary modelId entries [] w r w' tr recs" by blast
  then have s: "calls w' = calls w @ tr" "r = Inr recs"
    "map fst tr = map (\<lambda>e. ItemsCreate modelId (recordData e)) entries"
    "map item_fields recs = map recordData (migrated_entries entries tr)"
    "length (console w') = length (console w) + length (filter (\<lambda>x. \<not> snd x) tr)"
    by (simp_all add: run_summary_def)
  from issued_append[OF s(1)] have iss: "issued w w' = tr" .
  have "entries = [] \<longrightarrow> recs = []" using s(4) by (auto simp: migrated_entries_def)
  with s iss show ?thesis by simp
qed

theorem migrate_returns_successes_in_order_witness:
  "map snd (issued (demo_world [False, True, False])
      (snd (demo_migrate [demo_entry_A, demo_entry_B, demo_entry_C] (demo_world [False, True, False]))))
     = [True, False, True] \<and>
   map item_fields
     (case fst (demo_migrate [demo_entry_A, demo_entry_B, demo_entry_C] (demo_world [False, True, False]))
      of Inl e \<Rightarrow> [] | Inr recs \<Rightarrow> recs)
     = [recordData demo_entry_A, recordData demo_entry_C] \<and>
   length (console (snd (demo_migrate [demo_entry_A, demo_entry_B, demo_entry_C]
                           (demo_world [False, True, False])))) = 1"
proof -
  let ?w = "demo_world [False, True, False]"
  let ?es = "[demo_entry_A, demo_entry_B, demo_entry_C]"
  have run: "migrateSvgsToRecords ''tok'' ''m1'' ?es ?w = (fst (demo_migrate ?es ?w), snd (demo_migrate ?es ?w))"
    by (simp add: demo_migrate_def)
  have oks: "map snd (issued ?w (snd (demo_migrate ?es ?w))) = [True, False, True]" by code_simp
  have sel: "migrated_entries ?es (issued ?w (snd (demo_migrate ?es ?w))) = [demo_entry_A, demo_entry_C]"
    by code_simp
  have failed: "length (filter (\<lambda>x. \<not> snd x) (issued ?w (snd (demo_migrate ?es ?w)))) = 1" by code_simp
  have c0: "console ?w = []" by code_simp
  from migrate_returns_successes_in_order[OF run] obtain recs where
    "fst (demo_migrate ?es ?w) = Inr recs"
    "map item_fields recs = map recordData (migrated_entries ?es (issued ?w (snd (demo_migrate ?es ?w))))"
    "length (console (snd (demo_migrate ?es ?w))) = length (console ?w)
       + length (filter (\<lambda>x. \<not> snd x) (issued ?w (snd (demo_migrate ?es ?w))))"
    by blast
  with oks sel failed c0 show ?thesis by simp
qed

text \<open>
  Claim C5, as stated, fails: when the request that lists the models is rejected,
  \<^verbatim>\<open>checkIfModelExists\<close> logs the error and returns \<^verbatim>\<open>null\<close>, and the setup stays
  incomplete although the Record Store contains a model with the schema key.
\<close>

theorem onBoot_adopts_existing_model_counterexample:
  "find (\<lambda>it. it_api_key it = SVG_MODEL_API_KEY) (item_type_table (demo_world [True])) = Some demo_model \<and>
   isSetupComplete (plugin_parameters demo_boot_ctx) = False \<and>
   isSetupComplete (parameters (demo_world [True])) = False \<and>
   fst (onBoot demo_boot_ctx (demo_world [True])) = Inr () \<and>
   isSetupComplete (parameters (snd (onBoot demo_boot_ctx (demo_world [True])))) = False \<and>
   svgModelId (parameters (snd (onBoot demo_boot_ctx (demo_world [True])))) = None \<and>
   console (snd (onBoot demo_boot_ctx (demo_world [True])))
     = [(''Error checking for SVG model:'', RequestFailed ItemTypesList)]"
  by code_simp

text \<open>
  Claim C5, amended. Starting from parameters not marked complete: if the first model of
  the Record Store whose API key is the schema key has a non-empty id and neither the
  listing nor the parameter update is rejected, \<^verbatim>\<open>onBoot\<close> stores the parameters with
  \<^verbatim>\<open>svgModelId\<close> set to that id and \<^verbatim>\<open>isSetupComplete\<close> set to true; if no model has
  the schema key, the stored parameters are unchanged and the only request is the listing.
  If the listing is rejected, \<^verbatim>\<open>onBoot\<close> still returns normally, the rejection is printed
  to the error console, the stored parameters are unchanged and no further request is
  issued, as when no model exists. If the listing finds the model but the parameter update
  is rejected, \<^verbatim>\<open>onBoot\<close> fails with that error and the stored parameters are unchanged.
  In every case no request of the Model Provisioner is issued, whereas every run of
  \<^verbatim>\<open>createSvgModel\<close> issues one.
\<close>

theorem onBoot_adopts_existing_model:
  assumes inc: "\<not> isSetupComplete (plugin_parameters ctx)"
    and run: "onBoot ctx w = (r, w')"
  shows "(\<forall>mdl. find (\<lambda>it. it_api_key it = SVG_MODEL_API_KEY) (item_type_table w) = Some mdl
                \<and> it_id mdl \<noteq> [] \<and> \<not> head_fault (faults w) \<and> \<not> head_fault (tl (faults w))
            \<longrightarrow> r = Inr () \<and>
                parameters w' = (plugin_parameters ctx)\<lparr>svgModelId := Some (it_id mdl),
                                                         isSetupComplete := True\<rparr>) \<and>
         (find (\<lambda>it. it_api_key it = SVG_MODEL_API_KEY) (item_type_table w) = None
            \<longrightarrow> r = Inr () \<and> parameters w' = parameters w \<and>
                (\<forall>x \<in> set (issued w w'). fst x = ItemTypesList)) \<and>
         (head_fault (faults w)
            \<longrightarrow> r = Inr () \<and> parameters w' = parameters w \<and>
                issued w w' = [(ItemTypesList, False)] \<and>
                console w' = console w @
                  [(''Error checking for SVG model:'', RequestFailed ItemTypesList)]) \<and>
         (\<forall>mdl. find (\<lambda>it. it_api_key it = SVG_MODEL_API_KEY) (item_type_table w) = Some mdl
                \<and> it_id mdl \<noteq> [] \<and> \<not> head_fault (faults w) \<and> head_fault (tl (faults w))
            \<longrightarrow> r = Inl (RequestFailed (UpdatePluginParameters
                          ((plugin_parameters ctx)\<lparr>svgModelId := Some (it_id mdl),
                                                    isSetupComplete := True\<rparr>))) \<and>
                parameters w' = parameters w) \<and>
         (\<forall>x \<in> set (issued w w'). \<not> is_provisioning_call (fst x)) \<and>
         (\<forall>tok env v. \<exists>x \<in> set (issued v (snd (createSvgModel tok env v))).
                         is_provisioning_call (fst x))"
proof -
  have e: "head_fault (faults w)
            \<longrightarrow> r = Inr () \<and> parameters w' = parameters w \<and>
                issued w w' = [(ItemTypesList, False)] \<and>
                console w' = console w @
                  [(''Error checking for SVG model:'', RequestFailed ItemTypesList)]"
    using inc run
    by (auto simp: onBoot_eq Let_def issued_def split: if_splits)
  have f: "\<forall>mdl. find (\<lambda>it. it_api_key it = SVG_MODEL_API_KEY) (item_type_table w) = Some mdl
                \<and> it_id mdl \<noteq> [] \<and> \<not> head_fault (faults w) \<and> head_fault (tl (faults w))
            \<longrightarrow> r = Inl (RequestFailed (UpdatePluginParameters
                          ((plugin_parameters ctx)\<lparr>svgModelId := Some (it_id mdl),
                                                    isSetupComplete := True\<rparr>))) \<and>
                parameters w' = parameters w"
    using inc run
    by (auto simp: onBoot_eq Let_def found_model_id_def truthy_def split: if_splits)
  have a: "\<forall>mdl. find (\<lambda>it. it_api_key it = SVG_MODEL_API_KEY) (item_type_table w) = Some mdl
                \<and> it_id mdl \<noteq> [] \<and> \<not> head_fault (faults w) \<and> \<not> head_fault (tl (faults w))
            \<longrightarrow> r = Inr () \<and>
                parameters w' = (plugin_parameters ctx)\<lparr>svgModelId := Some (it_id mdl),
                                                         isSetupComplete := True\<rparr>"
    using inc run
    by (auto simp: onBoot_eq Let_def found_model_id_def truthy_def split: if_splits)
  have b: "find (\<lambda>it. it_api_key it = SVG_MODEL_API_KEY) (item_type_table w) = None
            \<longrightarrow> r = Inr () \<and> parameters w' = parameters w \<and>
                (\<forall>x \<in> set (issued w w'). fst x = ItemTypesList)"
    using inc run
    by (auto simp: onBoot_eq Let_def found_model_id_def truthy_def issued_def split: if_splits)
  have c: "\<forall>x \<in> set (issued w w'). \<not> is_provisioning_call (fst x)"
    using inc run
    by (auto simp: onBoot_eq Let_def issued_def split: if_splits)
  have d: "\<forall>tok env v. \<exists>x \<in> set (issued v (snd (createSvgModel tok env v))).
                         is_provisioning_call (fst x)"
  proof (intro allI)
    fix tok env v
    from createSvgModel_first_call[of v tok env] obtain ok tr where
      "issued v (snd (createSvgModel tok env v))
         = (ItemTypesCreate SVG_MODEL_NAME SVG_MODEL_API_KEY, ok) # tr" by blast
    then show "\<exists>x \<in> set (issued v (snd (createSvgModel tok env v))). is_provisioning_call (fst x)"
      by simp
  qed
  from a b e f c d show ?thesis by (intro conjI)
qed

theorem onBoot_adopts_existing_model_witness:
  "find (\<lambda>it. it_api_key it = SVG_MODEL_API_KEY) (item_type_table (demo_world [])) = Some demo_model \<and>
   it_id demo_model = ''m1'' \<and>
   parameters (snd (onBoot demo_boot_ctx (demo_world [])))
     = demo_parameters\<lparr>svgModelId := Some ''m1'', isSetupComplete := True\<rparr> \<and>
   filter (\<lambda>x. is_provisioning_call (fst x))
     (issued (demo_world []) (snd (onBoot demo_boot_ctx (demo_world [])))) = [] \<and>
   find (\<lambda>it. it_api_key it = SVG_MODEL_API_KEY) (item_type_table ((demo_world [])\<lparr>item_type_table := []\<rparr>)) = None \<and>
   parameters (snd (onBoot demo_boot_ctx ((demo_world [])\<lparr>item_type_table := []\<rparr>))) = demo_parameters \<and>
   head_fault (faults (demo_world [True, False])) \<and>
   issued (demo_world [True, False]) (snd (onBoot demo_boot_ctx (demo_world [True, False])))
     = [(ItemTypesList, False)] \<and>
   console (snd (onBoot demo_boot_ctx (demo_world [True, False])))
     = [(''Error checking for SVG model:'', RequestFailed ItemTypesList)] \<and>
   parameters (snd (onBoot demo_boot_ctx (demo_world [True, False]))) = demo_parameters \<and>
   fst (onBoot demo_boot_ctx (demo_world [False, True]))
     = Inl (RequestFailed (UpdatePluginParameters
              (demo_parameters\<lparr>svgModelId := Some ''m1'', isSetupComplete := True\<rparr>))) \<and>
   parameters (snd (onBoot demo_boot_ctx (demo_world [False, True]))) = demo_parameters"
proof -
  let ?x = "demo_world [True, False]"
  let ?y = "demo_world [False, True]"
  have run3: "onBoot demo_boot_ctx ?x = (fst (onBoot demo_boot_ctx ?x), snd (onBoot demo_boot_ctx ?x))" by simp
  have run4: "onBoot demo_boot_ctx ?y = (fst (onBoot demo_boot_ctx ?y), snd (onBoot demo_boot_ctx ?y))" by simp
  have hx: "head_fault (faults ?x)" by code_simp
  have cx: "console ?x = []" by code_simp
  have px: "parameters ?x = demo_parameters" by code_simp
  have fy: "find (\<lambda>it. it_api_key it = SVG_MODEL_API_KEY) (item_type_table ?y) = Some demo_model" by code_simp
  have hy: "\<not> head_fault (faults ?y)" "head_fault (tl (faults ?y))" by code_simp+
  have py: "parameters ?y = demo_parameters" by code_simp
  let ?w = "demo_world []"
  let ?v = "(demo_world [])\<lparr>item_type_table := []\<rparr>"
  have inc: "\<not> isSetupComplete (plugin_parameters demo_boot_ctx)" by code_simp
  have run1: "onBoot demo_boot_ctx ?w = (fst (onBoot demo_boot_ctx ?w), snd (onBoot demo_boot_ctx ?w))" by simp
  have run2: "onBoot demo_boot_ctx ?v = (fst (onBoot demo_boot_ctx ?v), snd (onBoot demo_boot_ctx ?v))" by simp
  have f1: "find (\<lambda>it. it_api_key it = SVG_MODEL_API_KEY) (item_type_table ?w) = Some demo_model" by code_simp
  have f2: "find (\<lambda>it. it_api_key it = SVG_MODEL_API_KEY) (item_type_table ?v) = None" by simp
  have idm: "it_id demo_model = ''m1''" by code_simp
  have nf: "\<not> head_fault (faults ?w)" "\<not> head_fault (tl (faults ?w))" by code_simp+
  have pp: "plugin_parameters demo_boot_ctx = demo_parameters" by code_simp
  have pv: "parameters ?v = demo_parameters" by code_simp
  note t1 = onBoot_adopts_existing_model[OF inc run1]
  note t2 = onBoot_adopts_existing_model[OF inc run2]
  from t1 f1 idm nf pp
  have a: "parameters (snd (onBoot demo_boot_ctx ?w)) = demo_parameters\<lparr>svgModelId := Some ''m1'', isSetupComplete := True\<rparr>"
    by auto
  from t1 have "\<forall>x \<in> set (issued ?w (snd (onBoot demo_boot_ctx ?w))). \<not> is_provisioning_call (fst x)"
    by blast
  then have b: "filter (\<lambda>x. is_provisioning_call (fst x)) (issued ?w (snd (onBoot demo_boot_ctx ?w))) = []"
    by (simp add: filter_empty_conv)
  from t2 f2 pv have c: "parameters (snd (onBoot demo_boot_ctx ?v)) = demo_parameters" by auto
  note t3 = onBoot_adopts_existing_model[OF inc run3]
  note t4 = onBoot_adopts_existing_model[OF inc run4]
  from t3 hx cx px
  have d: "issued ?x (snd (onBoot demo_boot_ctx ?x)) = [(ItemTypesList, False)]"
    "console (snd (onBoot demo_boot_ctx ?x))
       = [(''Error checking for SVG model:'', RequestFailed ItemTypesList)]"
    "parameters (snd (onBoot demo_boot_ctx ?x)) = demo_parameters"
    by auto
  from t4 fy idm hy pp py
  have e: "fst (onBoot demo_boot_ctx ?y)
       = Inl (RequestFailed (UpdatePluginParameters
                (demo_parameters\<lparr>svgModelId := Some ''m1'', isSetupComplete := True\<rparr>)))"
    "parameters (snd (onBoot demo_boot_ctx ?y)) = demo_parameters"
    by auto
  from a b c d e f1 f2 idm hx show ?thesis by simp
qed

text \<open>
  Claim C6. If the event carries no \<^verbatim>\<open>svg_content\<close> string, or the string is empty or not
  well-formed SVG, \<^verbatim>\<open>syncMediaOnItemUpsert\<close> returns normally and leaves the world as it
  was: no request is issued, nothing is printed to the error console and no asset changes.
\<close>

theorem sync_skips_invalid_content:
  assumes "\<forall>s. map_of (event_attrs payload) ''svg_content'' = Some (JStr s) \<longrightarrow> s = [] \<or> \<not> isSvg s"
  shows "syncMediaOnItemUpsert isSvg payload apiToken env modelId w = (Inr (), w)"
proof -
  have "event_svg_content payload = [] \<or> \<not> isSvg (event_svg_content payload)"
    using assms by (auto simp: event_svg_content_def attr_string_def split: option.splits json.splits)
  then show ?thesis by (auto simp: sync_eq)
qed

theorem sync_skips_invalid_content_witness:
  "map_of (event_attrs demo_invalid) ''svg_content'' = Some (JStr ''hello'') \<and>
   \<not> demo_isSvg ''hello'' \<and>
   demo_sync demo_invalid (demo_world []) = (Inr (), demo_world [])"
proof -
  have a: "map_of (event_attrs demo_invalid) ''svg_content'' = Some (JStr ''hello'')" by code_simp
  have b: "\<not> demo_isSvg ''hello''" by code_simp
  from a b have h: "\<forall>s. map_of (event_attrs demo_invalid) ''svg_content'' = Some (JStr s) \<longrightarrow> s = [] \<or> \<not> demo_isSvg s"
    by simp
  from sync_skips_invalid_content[OF h] a b show ?thesis by (simp add: demo_sync_def)
qed




text \<open>
  Claim C8, as stated, fails: the swap hands the path of the temporary upload to the
  content-replace request, so after a successful swap the content address of the existing
  asset is the address of the temporary asset.
\<close>

theorem swap_leaves_temp_address_counterexample:
  "fst (demo_swap (demo_world [])) = Inr () \<and>
   fst (uploads_createFromFileOrBlob ''<svg>new</svg>'' ''logo.svg'' (demo_world []))
     = Inr \<lparr>upload_id = ''000'', upload_path = ''00000000000-logo.svg''\<rparr> \<and>
   map_of (upload_table (snd (demo_swap (demo_world [])))) ''a1'' = Some ''00000000000-logo.svg''"
  by code_simp

text \<open>
  Claim C8, amended. After a successful swap of an existing upload, its content address
  is the address the temporary upload was created with; the upload keeps its own id, which
  differs from the id of the temporary upload; and the temporary upload is gone from the
  Asset Store.
\<close>

theorem swap_leaves_temp_address:
  assumes create: "uploads_createFromFileOrBlob rawSvg (fname @ ''.svg'') w = (Inr tempUpload, w1)"
    and run: "updateExistingUploadWithSvgContent apiToken uploadId rawSvg fname env w = (Inr (), w')"
    and ex: "map_of (upload_table w) uploadId \<noteq> None"
  shows "map_of (upload_table w') uploadId = Some (upload_path tempUpload) \<and>
         uploadId \<noteq> upload_id tempUpload \<and>
         map_of (upload_table w') (upload_id tempUpload) = None"
proof -
  from create have nf: "\<not> head_fault (faults w)"
    and tmp: "tempUpload = \<lparr>upload_id = temp_id w, upload_path = temp_path w (fname @ ''.svg'')\<rparr>"
    by (auto simp: create_eq split: if_splits)
  from swap_trace(3)[OF run] have ok: "update_ok w uploadId" by (simp add: is_ok_def)
  from swap_content_new(1)[OF run nf ok ex] swap_temp_gone[OF run ex] ex temp_id_fresh[of w] tmp
  show ?thesis by auto
qed

theorem swap_leaves_temp_address_witness:
  "fst (demo_swap (demo_world [False, False, False])) = Inr () \<and>
   map_of (upload_table (demo_world [False, False, False])) ''a1'' = Some ''/7/old.svg'' \<and>
   map_of (upload_table (snd (demo_swap (demo_world [False, False, False])))) ''a1''
     = Some ''00000000000-logo.svg'' \<and>
   map_of (upload_table (snd (demo_swap (demo_world [False, False, False])))) ''000'' = None"
proof -
  have cr: "fst (uploads_createFromFileOrBlob ''<svg>new</svg>'' ''logo.svg'' (demo_world [False, False, False]))
     = Inr \<lparr>upload_id = ''000'', upload_path = ''00000000000-logo.svg''\<rparr>"
    by code_simp
  then have create: "uploads_createFromFileOrBlob ''<svg>new</svg>'' (''logo'' @ ''.svg'') (demo_world [False, False, False])
     = (Inr \<lparr>upload_id = ''000'', upload_path = ''00000000000-logo.svg''\<rparr>,
        snd (uploads_createFromFileOrBlob ''<svg>new</svg>'' ''logo.svg'' (demo_world [False, False, False])))"
    by (simp add: prod_eq_iff)
  have ok: "fst (demo_swap (demo_world [False, False, False])) = Inr ()" by code_simp
  then have run: "updateExistingUploadWithSvgContent ''tok'' ''a1'' ''<svg>new</svg>'' ''logo'' ''main'' (demo_world [False, False, False])
     = (Inr (), snd (demo_swap (demo_world [False, False, False])))"
    by (simp add: demo_swap_def prod_eq_iff)
  have ex: "map_of (upload_table (demo_world [False, False, False])) ''a1'' = Some ''/7/old.svg''" by code_simp
  then have ex': "map_of (upload_table (demo_world [False, False, False])) ''a1'' \<noteq> None" by simp
  from swap_leaves_temp_address[OF create run ex'] ok ex show ?thesis by simp
qed

text \<open>
  Claim C9. For a legacy entry of type image with an asset id, the create request that
  \<^verbatim>\<open>migrateSvgsToRecords\<close> issues for it carries \<^verbatim>\<open>media_upload\<close> with that asset id;
  when the request succeeds, a returned record references the same asset id; and the whole
  migration issues no upload request and leaves the Asset Store unchanged.
\<close>

theorem migrate_reuses_asset_reference:
  assumes run: "migrateSvgsToRecords apiToken modelId entries w = (r, w')"
    and e: "e \<in> set entries" "svg_type e = Image" "imageId e = Some aid" "aid \<noteq> []"
  shows "(\<exists>ok. (ItemsCreate modelId (recordData e), ok) \<in> set (issued w w')) \<and>
         upload_id_of (map_of (recordData e) ''media_upload'') = Some aid \<and>
         ((ItemsCreate modelId (recordData e), True) \<in> set (issued w w')
            \<longrightarrow> (\<exists>recs rec. r = Inr recs \<and> rec \<in> set recs \<and>
                   upload_id_of (map_of (item_fields rec) ''media_upload'') = Some aid)) \<and>
         (\<forall>x \<in> set (issued w w'). \<not> is_upload_call (fst x)) \<and>
         upload_table w' = upload_table w \<and> file_table w' = file_table w"
proof -
  from migrate_loop_run[OF run[unfolded migrateSvgsToRecords_def]] obtain tr recs where
    "run_summary modelId entries [] w r w' tr recs" by blast
  then have s: "calls w' = calls w @ tr" "r = Inr recs"
    "map fst tr = map (\<lambda>e. ItemsCreate modelId (recordData e)) entries"
    "upload_table w' = upload_table w" "file_table w' = file_table w"
    "map item_fields recs = map recordData (migrated_entries entries tr)"
    by (simp_all add: run_summary_def)
  from issued_append[OF s(1)] have iss: "issued w w' = tr" .
  note ref = recordData_reference[OF e(2,3,4)]
  have "ItemsCreate modelId (recordData e) \<in> set (map fst tr)" using s(3) e(1) by auto
  then have a: "\<exists>ok. (ItemsCreate modelId (recordData e), ok) \<in> set tr" by auto
  have b: "\<forall>x \<in> set tr. \<not> is_upload_call (fst x)"
  proof
    fix x assume "x \<in> set tr"
    then have "fst x \<in> set (map fst tr)" by simp
    with s(3) show "\<not> is_upload_call (fst x)" by auto
  qed
  have c: "\<exists>recs rec. r = Inr recs \<and> rec \<in> set recs \<and>
                   upload_id_of (map_of (item_fields rec) ''media_upload'') = Some aid"
    if ok: "(ItemsCreate modelId (recordData e), True) \<in> set tr"
  proof -
    from succeeded_request_migrated[of tr "\<lambda>e. ItemsCreate modelId (recordData e)" entries e, OF s(3) ok]
    have "recordData e \<in> set (map recordData (migrated_entries entries tr))" by auto
    with s(6) have "recordData e \<in> set (map item_fields recs)" by simp
    then obtain rec where "rec \<in> set recs" "item_fields rec = recordData e" by auto
    with ref s(2) show ?thesis by auto
  qed
  from a b c iss s(4,5) ref show ?thesis by auto
qed

theorem migrate_reuses_asset_reference_witness:
  "svg_type demo_entry_B = Image \<and> imageId demo_entry_B = Some ''a1'' \<and>
   (ItemsCreate ''m1'' (recordData demo_entry_B), True)
     \<in> set (issued (demo_world []) (snd (demo_migrate [demo_entry_A, demo_entry_B] (demo_world [])))) \<and>
   upload_id_of (map_of (recordData demo_entry_B) ''media_upload'') = Some ''a1'' \<and>
   filter (\<lambda>x. is_upload_call (fst x))
     (issued (demo_world []) (snd (demo_migrate [demo_entry_A, demo_entry_B] (demo_world [])))) = [] \<and>
   upload_table (snd (demo_migrate [demo_entry_A, demo_entry_B] (demo_world [])))
     = upload_table (demo_world [])"
proof -
  let ?w = "demo_world []"
  let ?es = "[demo_entry_A, demo_entry_B]"
  have run: "migrateSvgsToRecords ''tok'' ''m1'' ?es ?w = (fst (demo_migrate ?es ?w), snd (demo_migrate ?es ?w))"
    by (simp add: demo_migrate_def)
  have e: "demo_entry_B \<in> set ?es" by simp
  have k: "svg_type demo_entry_B = Image" by code_simp
  have i: "imageId demo_entry_B = Some ''a1''" by code_simp
  have n: "''a1'' \<noteq> []" by simp
  have ok: "(ItemsCreate ''m1'' (recordData demo_entry_B), True) \<in> set (issued ?w (snd (demo_migrate ?es ?w)))"
    by code_simp
  note t = migrate_reuses_asset_reference[OF run e k i n]
  from t have "upload_id_of (map_of (recordData demo_entry_B) ''media_upload'') = Some ''a1''"
    and "\<forall>x \<in> set (issued ?w (snd (demo_migrate ?es ?w))). \<not> is_upload_call (fst x)"
    and "upload_table (snd (demo_migrate ?es ?w)) = upload_table ?w"
    by blast+
  moreover from t ok obtain recs rec where "fst (demo_migrate ?es ?w) = Inr recs" "rec \<in> set recs"
    "upload_id_of (map_of (item_fields rec) ''media_upload'') = Some ''a1''"
    by auto
  ultimately show ?thesis using k i ok by (simp add: filter_empty_conv)
qed

text \<open>
  Claim C10. Once the temporary upload has been created, the swap issues exactly the
  content-replace request and then the destroy request for the temporary upload, whether
  the replace succeeds or not; and when the replace fails, the existing upload keeps its
  content address and its content.
\<close>

theorem swap_always_destroys_temp:
  assumes create: "uploads_createFromFileOrBlob rawSvg (fname @ ''.svg'') w = (Inr tempUpload, w1)"
    and run: "updateExistingUploadWithSvgContent apiToken uploadId rawSvg fname env w = (r, w')"
  shows "(\<exists>ok ok'. issued w w' =
            [(UploadsCreate rawSvg (fname @ ''.svg''), True),
             (UploadsUpdate uploadId (upload_path tempUpload), ok),
             (UploadsDestroy (upload_id tempUpload), ok')]) \<and>
         ((UploadsUpdate uploadId (upload_path tempUpload), False) \<in> set (issued w w')
            \<and> map_of (upload_table w) uploadId \<noteq> None
          \<longrightarrow> map_of (upload_table w') uploadId = map_of (upload_table w) uploadId
              \<and> resolved_content w' uploadId = resolved_content w uploadId)"
proof -
  from create have nf: "\<not> head_fault (faults w)"
    and tmp: "tempUpload = \<lparr>upload_id = temp_id w, upload_path = temp_path w (fname @ ''.svg'')\<rparr>"
    by (auto simp: create_eq split: if_splits)
  from swap_trace(2)[OF run] nf tmp
  have iss: "issued w w' =
            [(UploadsCreate rawSvg (fname @ ''.svg''), True),
             (UploadsUpdate uploadId (upload_path tempUpload), update_ok w uploadId),
             (UploadsDestroy (upload_id tempUpload), \<not> head_fault (tl (tl (faults w))))]"
    by simp
  have "map_of (upload_table w') uploadId = map_of (upload_table w) uploadId
              \<and> resolved_content w' uploadId = resolved_content w uploadId"
    if "(UploadsUpdate uploadId (upload_path tempUpload), False) \<in> set (issued w w')"
      and ex: "map_of (upload_table w) uploadId \<noteq> None"
  proof -
    from that(1) iss have "\<not> update_ok w uploadId" by auto
    from swap_content_kept[OF run this ex] show ?thesis by simp
  qed
  with iss show ?thesis by blast
qed

theorem swap_always_destroys_temp_witness:
  "fst (uploads_createFromFileOrBlob ''<svg>new</svg>'' ''logo.svg'' (demo_world [False, True]))
     = Inr \<lparr>upload_id = ''000'', upload_path = ''00000000000-logo.svg''\<rparr> \<and>
   issued (demo_world [False, True]) (snd (demo_swap (demo_world [False, True])))
     = [(UploadsCreate ''<svg>new</svg>'' ''logo.svg'', True),
        (UploadsUpdate ''a1'' ''00000000000-logo.svg'', False),
        (UploadsDestroy ''000'', True)] \<and>
   resolved_content (snd (demo_swap (demo_world [False, True]))) ''a1'' = Some ''<svg>old</svg>''"
proof -
  have cr: "fst (uploads_createFromFileOrBlob ''<svg>new</svg>'' ''logo.svg'' (demo_world [False, True]))
     = Inr \<lparr>upload_id = ''000'', upload_path = ''00000000000-logo.svg''\<rparr>"
    by code_simp
  then have create: "uploads_createFromFileOrBlob ''<svg>new</svg>'' (''logo'' @ ''.svg'') (demo_world [False, True])
     = (Inr \<lparr>upload_id = ''000'', upload_path = ''00000000000-logo.svg''\<rparr>,
        snd (uploads_createFromFileOrBlob ''<svg>new</svg>'' ''logo.svg'' (demo_world [False, True])))"
    by (simp add: prod_eq_iff)
  have run: "updateExistingUploadWithSvgContent ''tok'' ''a1'' ''<svg>new</svg>'' ''logo'' ''main'' (demo_world [False, True])
     = (fst (demo_swap (demo_world [False, True])), snd (demo_swap (demo_world [False, True])))"
    by (simp add: demo_swap_def)
  have iss: "issued (demo_world [False, True]) (snd (demo_swap (demo_world [False, True])))
     = [(UploadsCreate ''<svg>new</svg>'' ''logo.svg'', True),
        (UploadsUpdate ''a1'' ''00000000000-logo.svg'', False),
        (UploadsDestroy ''000'', True)]"
    by code_simp
  have old: "resolved_content (demo_world [False, True]) ''a1'' = Some ''<svg>old</svg>''" by code_simp
  have ex: "map_of (upload_table (demo_world [False, True])) ''a1'' \<noteq> None" by code_simp
  from swap_always_destroys_temp[OF create run] cr iss old ex show ?thesis by simp
qed

end
